theory Spec2Isabelle
  imports Main "HOL-Library.Word" "HOL-Library.Char_ord" "HOL-Library.AList"
begin

unbundle bit_operations_syntax

section \<open>Constants (udev-utils.c, lines 46-93)\<close>

text \<open>
  C strings are modelled as \<^typ>\<open>string\<close>: the bytes before the terminating NUL.
  A pointer that may be \<open>NULL\<close> is an \<open>option\<close>. The model is the build with
  \<open>HAVE_LINUX_INPUT_H\<close> defined on an LP64 target (\<open>long\<close> has 64 bits).
\<close>

type_synonym u16 = "16 word"
type_synonym u32 = "32 word"
type_synonym ulong = "64 word"

definition BUS_PCI :: u32 where "BUS_PCI = 0x01"
definition BUS_USB :: u32 where "BUS_USB = 0x03"
definition BUS_VIRTUAL :: u32 where "BUS_VIRTUAL = 0x06"
definition BUS_ISA :: u32 where "BUS_ISA = 0x10"
definition BUS_I8042 :: u32 where "BUS_I8042 = 0x11"

definition PS2_KEYBOARD_VENDOR :: u32 where "PS2_KEYBOARD_VENDOR = 0x001"
definition PS2_KEYBOARD_PRODUCT :: u32 where "PS2_KEYBOARD_PRODUCT = 0x001"
definition PS2_MOUSE_VENDOR :: u32 where "PS2_MOUSE_VENDOR = 0x002"
definition PS2_MOUSE_GENERIC_PRODUCT :: u32 where "PS2_MOUSE_GENERIC_PRODUCT = 0x001"

definition virtual_sysname :: string where "virtual_sysname = ''uinput''"

datatype input_type =
  IT_NONE | IT_KEYBOARD | IT_MOUSE | IT_TOUCHPAD | IT_TOUCHSCREEN | IT_JOYSTICK | IT_TABLET

definition SCFLAG_SKIP_IF_EVDEV :: int where "SCFLAG_SKIP_IF_EVDEV = 0x01"

section \<open>The device object (udev-device.c and udev-list.c, consumed through their interface)\<close>

text \<open>
  Modelled from the spec: \<open>struct udev_list\<close> and \<open>udev_list_insert\<close> of udev-list.c, which
  is not under src/. The spec treats the property list as a plain container of key/value
  pairs whose insertion always takes effect; a key holds one value, which may be \<open>NULL\<close>.
  The list is an association list, and the insertion reports 0 as the C function does on
  success.
\<close>

type_synonym udev_list = "(string \<times> string option) list"

definition udev_list_insert :: "udev_list \<Rightarrow> string \<Rightarrow> string option \<Rightarrow> int \<times> udev_list" where
  "udev_list_insert ul name val = (0, AList.update name val ul)"

text \<open>
  Modelled from the spec: \<open>struct udev_device\<close> and its accessors of udev-device.c, which is
  not under src/: a device has a path, a property list, an attribute list and at most one
  parent descriptor. The short name of a device is the part of its path after the last
  slash (\<open>strbase\<close> of utils.c).
\<close>

datatype udev_device =
  Udev_device (ud_syspath: string) (ud_prop_list: udev_list) (ud_sysattr_list: udev_list)
    (ud_parent: "udev_device option")

definition udev_device_get_syspath :: "udev_device \<Rightarrow> string" where
  "udev_device_get_syspath ud = ud_syspath ud"

definition udev_device_get_devnode :: "udev_device \<Rightarrow> string" where
  "udev_device_get_devnode ud = ud_syspath ud"

definition udev_device_get_properties_list :: "udev_device \<Rightarrow> udev_list" where
  "udev_device_get_properties_list ud = ud_prop_list ud"

definition udev_device_get_sysattr_list :: "udev_device \<Rightarrow> udev_list" where
  "udev_device_get_sysattr_list ud = ud_sysattr_list ud"

definition set_properties_list :: "udev_device \<Rightarrow> udev_list \<Rightarrow> udev_device" where
  "set_properties_list ud ul = Udev_device (ud_syspath ud) ul (ud_sysattr_list ud) (ud_parent ud)"

definition set_sysattr_list :: "udev_device \<Rightarrow> udev_list \<Rightarrow> udev_device" where
  "set_sysattr_list ud ul = Udev_device (ud_syspath ud) (ud_prop_list ud) ul (ud_parent ud)"

definition udev_device_set_parent :: "udev_device \<Rightarrow> udev_device \<Rightarrow> udev_device" where
  "udev_device_set_parent ud p = Udev_device (ud_syspath ud) (ud_prop_list ud) (ud_sysattr_list ud) (Some p)"

definition strbase :: "string \<Rightarrow> string" where
  "strbase path = rev (takeWhile (\<lambda>c. c \<noteq> CHR ''/'') (rev path))"

definition get_sysname_by_syspath :: "string \<Rightarrow> string" where
  "get_sysname_by_syspath syspath = strbase syspath"

definition udev_device_get_sysname :: "udev_device \<Rightarrow> string" where
  "udev_device_get_sysname ud = get_sysname_by_syspath (ud_syspath ud)"

section \<open>Type markers (udev-utils.c, lines 219-250)\<close>

text \<open>
  The device is passed by pointer and its property list is updated in place; the model
  returns the status together with the updated device. Only the status of the first
  insertion is checked, as in the source.
\<close>

definition insert_property :: "udev_device \<Rightarrow> string \<Rightarrow> string \<Rightarrow> int \<times> udev_device" where
  "insert_property ud name val =
     (case udev_list_insert (udev_device_get_properties_list ud) name (Some val) of
        (rc, ul) \<Rightarrow> (rc, set_properties_list ud ul))"

definition set_input_device_type :: "udev_device \<Rightarrow> input_type \<Rightarrow> int \<times> udev_device" where
  "set_input_device_type ud input_type =
     (case insert_property ud ''ID_INPUT'' ''1'' of
        (rc, ud1) \<Rightarrow>
          if rc < 0 then (-1, ud1)
          else
            (0,
             case input_type of
               IT_KEYBOARD \<Rightarrow>
                 snd (insert_property (snd (insert_property ud1 ''ID_INPUT_KEY'' ''1''))
                        ''ID_INPUT_KEYBOARD'' ''1'')
             | IT_MOUSE \<Rightarrow> snd (insert_property ud1 ''ID_INPUT_MOUSE'' ''1'')
             | IT_TOUCHPAD \<Rightarrow>
                 snd (insert_property (snd (insert_property ud1 ''ID_INPUT_MOUSE'' ''1''))
                        ''ID_INPUT_TOUCHPAD'' ''1'')
             | IT_TOUCHSCREEN \<Rightarrow> snd (insert_property ud1 ''ID_INPUT_TOUCHSCREEN'' ''1'')
             | IT_JOYSTICK \<Rightarrow> snd (insert_property ud1 ''ID_INPUT_JOYSTICK'' ''1'')
             | IT_TABLET \<Rightarrow> snd (insert_property ud1 ''ID_INPUT_TABLET'' ''1'')
             | IT_NONE \<Rightarrow> ud1))"

section \<open>The parent synthesizer (udev-utils.c, lines 252-276)\<close>

text \<open>
  \<open>udev_device_new_common\<close> of udev-device.c is not under src/; its result for the given
  short name is a parameter: \<open>None\<close> when the allocation fails, otherwise the fresh device
  the properties are inserted into. The last insertion stores \<open>product\<close> under the key
  \<open>id\<close>, as line 273 of the source does.
\<close>

definition create_xorg_parent ::
  "(string \<Rightarrow> udev_device option) \<Rightarrow> udev_device \<Rightarrow> string \<Rightarrow> string
     \<Rightarrow> string option \<Rightarrow> string option \<Rightarrow> udev_device option" where
  "create_xorg_parent udev_device_new_common ud sysname name product pnp_id =
     (case udev_device_new_common sysname of
        None \<Rightarrow> None
      | Some parent0 \<Rightarrow>
          let props = udev_device_get_properties_list parent0;
              sysattrs = udev_device_get_sysattr_list parent0;
              props = snd (udev_list_insert props ''NAME'' (Some name));
              sysattrs = snd (udev_list_insert sysattrs ''name'' (Some name));
              props = (if product \<noteq> None
                       then snd (udev_list_insert props ''PRODUCT'' product) else props);
              sysattrs = (if pnp_id \<noteq> None
                          then snd (udev_list_insert sysattrs ''id'' product) else sysattrs)
          in Some (set_sysattr_list (set_properties_list parent0 props) sysattrs))"

section \<open>Capability bitmaps (udev-utils.c, lines 280-299)\<close>

text \<open>
  Modelled from the spec: the event codes of \<open>linux/input.h\<close>, a header the source includes
  and src/ does not hold. The specification names the ranges (ordinary keys, extra buttons,
  left/middle/right buttons, pen, stylus, touch, tool-finger and joystick buttons, the X, Y,
  pressure and multitouch-slot axes); the values are those of the header.

  A bitmap is an array of \<open>unsigned long\<close>; bit \<open>b\<close> lives in word \<open>b / LONG_BITS\<close> at
  position \<open>b % LONG_BITS\<close>.
\<close>

definition KEY_CNT :: nat where "KEY_CNT = 0x300"
definition REL_CNT :: nat where "REL_CNT = 0x10"
definition ABS_CNT :: nat where "ABS_CNT = 0x40"
definition BTN_MISC :: nat where "BTN_MISC = 0x100"
definition BTN_LEFT :: nat where "BTN_LEFT = 0x110"
definition BTN_RIGHT :: nat where "BTN_RIGHT = 0x111"
definition BTN_MIDDLE :: nat where "BTN_MIDDLE = 0x112"
definition BTN_JOYSTICK :: nat where "BTN_JOYSTICK = 0x120"
definition BTN_TOOL_PEN :: nat where "BTN_TOOL_PEN = 0x140"
definition BTN_TOOL_FINGER :: nat where "BTN_TOOL_FINGER = 0x145"
definition BTN_TOUCH :: nat where "BTN_TOUCH = 0x14a"
definition BTN_STYLUS :: nat where "BTN_STYLUS = 0x14b"
definition BTN_STYLUS2 :: nat where "BTN_STYLUS2 = 0x14c"
definition REL_X :: nat where "REL_X = 0x00"
definition REL_Y :: nat where "REL_Y = 0x01"
definition ABS_X :: nat where "ABS_X = 0x00"
definition ABS_Y :: nat where "ABS_Y = 0x01"
definition ABS_PRESSURE :: nat where "ABS_PRESSURE = 0x18"
definition ABS_MT_SLOT :: nat where "ABS_MT_SLOT = 0x2f"

definition LONG_BITS :: nat where "LONG_BITS = 8 * 8"

definition NLONGS :: "nat \<Rightarrow> nat" where
  "NLONGS x = (x + LONG_BITS - 1) div LONG_BITS"

definition bit_is_set :: "ulong list \<Rightarrow> nat \<Rightarrow> bool" where
  "bit_is_set array b = (array ! (b div LONG_BITS) AND push_bit (b mod LONG_BITS) 1 \<noteq> 0)"

function bit_find :: "ulong list \<Rightarrow> nat \<Rightarrow> nat \<Rightarrow> bool" where
  "bit_find array i stop =
     (if i < stop then (if bit_is_set array i then True else bit_find array (Suc i) stop)
      else False)"
  by pat_completeness auto
termination
  by (relation "measure (\<lambda>(array, i, stop). stop - i)") auto

declare bit_find.simps [simp del]

section \<open>The capability classifier (udev-utils.c, lines 301-404)\<close>

text \<open>
  Lines 342-377, entered when \<open>has_abs_axes\<close> holds. \<open>Inl t\<close> is \<open>goto detected\<close> with
  \<open>input_type = t\<close>; \<open>Inr b\<close> falls through to line 379 with \<open>has_buttons = b\<close>.
\<close>

definition probe_abs ::
  "ulong list \<Rightarrow> ulong list \<Rightarrow> ulong list \<Rightarrow> bool \<Rightarrow> bool \<Rightarrow> bool \<Rightarrow> input_type + bool" where
  "probe_abs key_bits rel_bits abs_bits has_buttons has_lmr has_mt =
     (case (if has_mt \<and> \<not> has_buttons
            then (if bit_is_set key_bits BTN_JOYSTICK then Inl IT_JOYSTICK else Inr True)
            else Inr has_buttons) of
        Inl t \<Rightarrow> Inl t
      | Inr has_buttons \<Rightarrow>
          if bit_is_set abs_bits ABS_X \<and> bit_is_set abs_bits ABS_Y then
            if bit_is_set key_bits BTN_TOOL_PEN \<or> bit_is_set key_bits BTN_STYLUS
               \<or> bit_is_set key_bits BTN_STYLUS2
            then Inl IT_TABLET
            else if bit_is_set abs_bits ABS_PRESSURE \<or> bit_is_set key_bits BTN_TOUCH
            then (if has_lmr \<or> bit_is_set key_bits BTN_TOOL_FINGER
                  then Inl IT_TOUCHPAD else Inl IT_TOUCHSCREEN)
            else if \<not> (bit_is_set rel_bits REL_X \<and> bit_is_set rel_bits REL_Y) \<and> has_lmr
            then Inl IT_TOUCHSCREEN
            else Inr has_buttons
          else Inr has_buttons)"

text \<open>
  Lines 335-385. \<open>Some t\<close>: control reaches the label \<open>detected\<close> with \<open>input_type = t\<close>;
  \<open>None\<close>: \<open>input_type\<close> is still \<open>IT_NONE\<close> at line 384 and control goes to \<open>bail_out\<close>.
\<close>

definition evdev_probe :: "ulong list \<Rightarrow> ulong list \<Rightarrow> ulong list \<Rightarrow> input_type option" where
  "evdev_probe key_bits rel_bits abs_bits =
     (let has_keys = bit_find key_bits 0 BTN_MISC;
          has_buttons = bit_find key_bits BTN_MISC BTN_JOYSTICK;
          has_lmr = bit_find key_bits BTN_LEFT (BTN_MIDDLE + 1);
          has_rel_axes = bit_find rel_bits 0 REL_CNT;
          has_abs_axes = bit_find abs_bits 0 ABS_CNT;
          has_mt = bit_find abs_bits ABS_MT_SLOT ABS_CNT
      in case (if has_abs_axes
               then probe_abs key_bits rel_bits abs_bits has_buttons has_lmr has_mt
               else Inr has_buttons) of
           Inl t \<Rightarrow> Some t
         | Inr has_buttons \<Rightarrow>
             let input_type =
                   (if has_keys then IT_KEYBOARD
                    else if has_rel_axes \<or> has_abs_axes \<or> has_buttons then IT_MOUSE
                    else IT_NONE)
             in if input_type = IT_NONE then None else Some input_type)"

text \<open>
  What the ioctls on an opened event node report. \<open>None\<close> is an ioctl that returns a
  negative value. \<open>EVIOCGPHYS\<close> may fail with \<open>ENOENT\<close>, which the handler tolerates; the
  buffer \<open>phys\<close> then keeps whatever the stack held, which the environment supplies.
\<close>

record input_id =
  id_bustype :: u16
  id_vendor :: u16
  id_product :: u16
  id_version :: u16

datatype phys_result = Phys string | Phys_ENOENT string | Phys_error

record evdev_node =
  ev_name :: "string option"
  ev_phys :: phys_result
  ev_id :: "input_id option"
  ev_rel_bits :: "ulong list option"
  ev_abs_bits :: "ulong list option"
  ev_key_bits :: "ulong list option"

text \<open>\<open>*(strchrnul(name, ',')) = '\0'\<close>: the string is cut at its first comma.\<close>

fun strchrnul :: "string \<Rightarrow> char \<Rightarrow> nat" where
  "strchrnul [] c = 0"
| "strchrnul (x # xs) c = (if x = c then 0 else Suc (strchrnul xs c))"

definition strip_name :: "string \<Rightarrow> string" where
  "strip_name name = take (strchrnul name (CHR '','')) name"

text \<open>The conversion \<open>%x\<close> of \<open>snprintf\<close>: lower-case hexadecimal, no leading zeros.\<close>

definition hex_digit :: "nat \<Rightarrow> char" where
  "hex_digit d = ''0123456789abcdef'' ! d"

fun fmt_x :: "nat \<Rightarrow> string" where
  "fmt_x n = (if n < 16 then [hex_digit n] else fmt_x (n div 16) @ [hex_digit (n mod 16)])"

declare fmt_x.simps [simp del]

definition snprintf :: "nat \<Rightarrow> string \<Rightarrow> string" where
  "snprintf n s = take (n - 1) s"

text \<open>
  Lines 316-332: the six queries; any failure other than \<open>ENOENT\<close> for the physical
  location is "could not query evdev".
\<close>

definition query_evdev ::
  "evdev_node \<Rightarrow> (string \<times> string \<times> input_id \<times> ulong list \<times> ulong list \<times> ulong list) option" where
  "query_evdev node =
     (case ev_name node of None \<Rightarrow> None | Some name \<Rightarrow>
      (case (case ev_phys node of
               Phys s \<Rightarrow> Some s | Phys_ENOENT s \<Rightarrow> Some s | Phys_error \<Rightarrow> None) of
         None \<Rightarrow> None | Some phys \<Rightarrow>
      (case ev_id node of None \<Rightarrow> None | Some iid \<Rightarrow>
      (case ev_rel_bits node of None \<Rightarrow> None | Some rel_bits \<Rightarrow>
      (case ev_abs_bits node of None \<Rightarrow> None | Some abs_bits \<Rightarrow>
      (case ev_key_bits node of None \<Rightarrow> None | Some key_bits \<Rightarrow>
         Some (name, phys, iid, rel_bits, abs_bits, key_bits)))))))"

text \<open>
  The environment of the handlers: the answer of the kernel to the \<open>n\<close>-th query of the
  feature flag \<open>kern.features.evdev_support\<close> (\<open>None\<close>: the query fails; the flag is a
  boolean), the device nodes that can be opened (\<open>None\<close>: no file descriptor), the legacy
  property tree read by \<open>sysctlbyname\<close>, the allocator of device objects
  (\<open>udev_device_new_common\<close> of udev-device.c), and the parser of plug-and-play blobs
  (\<open>get_kern_prop_value\<close> of utils.c), which answers with the offset and the length of the
  value of a key inside the blob. The last two are the repository's own functions that are
  not under src/, taken as parameters.
\<close>

record env =
  evdev_support :: "nat \<Rightarrow> bool option"
  open_node :: "string \<Rightarrow> evdev_node option"
  sysctl_tree :: "string \<Rightarrow> string option"
  udev_device_new_common :: "string \<Rightarrow> udev_device option"
  get_kern_prop_value :: "string \<Rightarrow> string \<Rightarrow> (nat \<times> nat) option"

definition create_evdev_handler :: "env \<Rightarrow> udev_device \<Rightarrow> udev_device" where
  "create_evdev_handler e ud =
     (case open_node e (udev_device_get_devnode ud) of
        None \<Rightarrow> ud
      | Some fd \<Rightarrow>
          (case query_evdev fd of
             None \<Rightarrow> ud
           | Some (name, phys, iid, rel_bits, abs_bits, key_bits) \<Rightarrow>
               (case evdev_probe key_bits rel_bits abs_bits of
                  None \<Rightarrow> ud
                | Some input_type \<Rightarrow>
                    let ud1 = snd (set_input_device_type ud input_type);
                        sysname = (if phys = [] then virtual_sysname else phys);
                        name = strip_name name;
                        product = snprintf 80
                          (fmt_x (unat (id_bustype iid)) @ ''/'' @ fmt_x (unat (id_vendor iid)) @ ''/''
                           @ fmt_x (unat (id_product iid)) @ ''/'' @ fmt_x (unat (id_version iid)))
                    in case create_xorg_parent (udev_device_new_common e) ud1 sysname name
                              (Some product) None of
                         None \<Rightarrow> ud1
                       | Some parent \<Rightarrow> udev_device_set_parent ud1 parent)))"

section \<open>Legacy parent synthesis (udev-utils.c, lines 407-494)\<close>

function syspathlen_loop :: "string \<Rightarrow> nat \<Rightarrow> nat" where
  "syspathlen_loop path len =
     (if len > 0 then
        (if path ! (len - 1) < CHR ''0'' \<or> path ! (len - 1) > CHR ''9'' then len
         else syspathlen_loop path (len - 1))
      else len)"
  by pat_completeness auto
termination
  by (relation "measure (\<lambda>(path, len). len)") auto

declare syspathlen_loop.simps [simp del]

definition syspathlen_wo_units :: "string \<Rightarrow> nat" where
  "syspathlen_wo_units path = syspathlen_loop path (length path)"

text \<open>
  \<open>sysctlbyname\<close> for a string node read into a buffer of \<open>len\<close> bytes: it fails when the
  node does not exist or its value and the terminating NUL do not fit.
\<close>

definition sysctlbyname :: "env \<Rightarrow> string \<Rightarrow> nat \<Rightarrow> string option" where
  "sysctlbyname e mib len =
     (case sysctl_tree e mib of
        None \<Rightarrow> None
      | Some v \<Rightarrow> if length v < len then Some v else None)"

text \<open>
  \<open>strtol(s, NULL, 0)\<close> of the C library: white space, an optional sign, the base taken
  from the prefix, the longest run of digits, and the value clamped to the range of
  \<open>long\<close>.
\<close>

definition LONG_MAX :: int where "LONG_MAX = 2 ^ 63 - 1"
definition LONG_MIN :: int where "LONG_MIN = - (2 ^ 63)"

definition isspace :: "char \<Rightarrow> bool" where
  "isspace c = (c \<in> set [CHR '' '', CHR 0x09, CHR 0x0A, CHR 0x0B, CHR 0x0C, CHR 0x0D])"

definition digit_val :: "char \<Rightarrow> nat option" where
  "digit_val c =
     (let n = (of_char c :: nat)
      in if 48 \<le> n \<and> n \<le> 57 then Some (n - 48)
         else if 97 \<le> n \<and> n \<le> 122 then Some (n - 87)
         else if 65 \<le> n \<and> n \<le> 90 then Some (n - 55)
         else None)"

fun strtol_digits :: "nat \<Rightarrow> int \<Rightarrow> string \<Rightarrow> int" where
  "strtol_digits base acc [] = acc"
| "strtol_digits base acc (c # s) =
     (case digit_val c of
        None \<Rightarrow> acc
      | Some d \<Rightarrow> if d < base then strtol_digits base (acc * int base + int d) s else acc)"

definition is_hex_prefix :: "string \<Rightarrow> bool" where
  "is_hex_prefix s =
     (case s of
        z # x # h # r \<Rightarrow>
          z = CHR ''0'' \<and> (x = CHR ''x'' \<or> x = CHR ''X'')
          \<and> (case digit_val h of None \<Rightarrow> False | Some d \<Rightarrow> d < 16)
      | _ \<Rightarrow> False)"

fun strtol_sign :: "string \<Rightarrow> bool \<times> string" where
  "strtol_sign [] = (False, [])"
| "strtol_sign (c # s) =
     (if c = CHR ''-'' then (True, s) else if c = CHR ''+'' then (False, s) else (False, c # s))"

definition strtol_magnitude :: "string \<Rightarrow> int" where
  "strtol_magnitude s =
     (if is_hex_prefix s then strtol_digits 16 0 (drop 2 s)
      else if s \<noteq> [] \<and> hd s = CHR ''0'' then strtol_digits 8 0 s
      else strtol_digits 10 0 s)"

definition strtol0 :: "string \<Rightarrow> int" where
  "strtol0 s =
     (case strtol_sign (dropWhile isspace s) of
        (neg, digits) \<Rightarrow>
          max LONG_MIN (min LONG_MAX
            (if neg then - strtol_magnitude digits else strtol_magnitude digits)))"

text \<open>
  Lines 462-487: bus, vendor and product from the values found in the blob (the C strings
  at the pointers the parser returned, \<open>None\<close> for \<open>NULL\<close>), the name of the parent driver
  and the base name of the driver. The results are \<open>uint32_t\<close>.
\<close>

definition bus_vendor_product ::
  "string option \<Rightarrow> string option \<Rightarrow> string option \<Rightarrow> string \<Rightarrow> string \<Rightarrow> u32 \<times> u32 \<times> u32" where
  "bus_vendor_product vendorstr prodstr devicestr parentname devname =
     (if prodstr \<noteq> None \<and> vendorstr \<noteq> None then
        (BUS_USB, word_of_int (strtol0 (the vendorstr)), word_of_int (strtol0 (the prodstr)))
      else if devicestr \<noteq> None \<and> vendorstr \<noteq> None then
        (BUS_PCI, word_of_int (strtol0 (the vendorstr)), word_of_int (strtol0 (the devicestr)))
      else if parentname = ''atkbdc0'' then
        (if devname = ''atkbd'' then (BUS_I8042, PS2_KEYBOARD_VENDOR, PS2_KEYBOARD_PRODUCT)
         else if devname = ''psm'' then (BUS_I8042, PS2_MOUSE_VENDOR, PS2_MOUSE_GENERIC_PRODUCT)
         else (BUS_I8042, 0, 0))
      else (BUS_VIRTUAL, 0, 0))"

text \<open>
  The buffer \<open>pnpinfo\<close> is shared by the four pointers into it; line 461 writes a NUL into
  it. \<open>cstr_at buf off\<close> is the C string that starts at offset \<open>off\<close> of the buffer.
\<close>

definition NUL :: char where "NUL = CHR 0x00"

definition cstr_at :: "string \<Rightarrow> nat \<Rightarrow> string" where
  "cstr_at buf off = takeWhile (\<lambda>c. c \<noteq> NUL) (drop off buf)"

text \<open>
  Lines 454-461: the plug-and-play id that is kept (offset and length), after the test
  against the literal \<open>none\<close>.
\<close>

definition retained_pnp_id :: "string \<Rightarrow> (nat \<times> nat) option \<Rightarrow> (nat \<times> nat) option" where
  "retained_pnp_id pnpinfo pnp =
     (case pnp of
        None \<Rightarrow> None
      | Some (off, pnplen) \<Rightarrow>
          if pnplen = 4 \<and> take 4 (cstr_at pnpinfo off) = ''none'' then None
          else Some (off, pnplen))"

text \<open>
  Lines 454-488: the product string and the plug-and-play id handed to
  \<open>create_xorg_parent\<close>.
\<close>

definition legacy_ids ::
  "env \<Rightarrow> string \<Rightarrow> string \<Rightarrow> string \<Rightarrow> string \<times> string option" where
  "legacy_ids e devname pnpinfo parentname =
     (let vendorstr = get_kern_prop_value e pnpinfo ''vendor'';
          prodstr = get_kern_prop_value e pnpinfo ''product'';
          devicestr = get_kern_prop_value e pnpinfo ''device'';
          pnp_id = retained_pnp_id pnpinfo (get_kern_prop_value e pnpinfo ''_HID'');
          pnpinfo = (case pnp_id of
                       None \<Rightarrow> pnpinfo
                     | Some (off, pnplen) \<Rightarrow> pnpinfo[off + pnplen := NUL]);
          str = (\<lambda>p. case p of None \<Rightarrow> None | Some (off, l) \<Rightarrow> Some (cstr_at pnpinfo off))
      in case bus_vendor_product (str vendorstr) (str prodstr) (str devicestr)
                parentname devname of
           (bus, vendor, prd) \<Rightarrow>
             (snprintf 80
                (fmt_x (unat bus) @ ''/'' @ fmt_x (unat vendor) @ ''/'' @ fmt_x (unat prd)
                 @ ''/0''),
              str pnp_id))"

definition mib_name :: "string \<Rightarrow> string \<Rightarrow> string \<Rightarrow> string" where
  "mib_name devname unit suffix = snprintf 32 (''dev.'' @ devname @ ''.'' @ unit @ ''.'' @ suffix)"

text \<open>
  Lines 430-489, up to the call of the synthesizer: the property names queried, in order,
  and the arguments \<open>sysname\<close>, \<open>name\<close>, \<open>product\<close>, \<open>pnp_id\<close> of the call (\<open>None\<close>: the
  function returned before it).
\<close>

definition set_parent_args ::
  "env \<Rightarrow> udev_device \<Rightarrow> string list \<times> (string \<times> string \<times> string option \<times> string option) option" where
  "set_parent_args e ud =
     (let sysname = udev_device_get_sysname ud;
          len = syspathlen_wo_units sysname
      in if length sysname = len then ([], None)
         else
           let devname = snprintf (len + 1) sysname;
               unit = drop len sysname;
               mib1 = mib_name devname unit ''%desc'';
               mib2 = mib_name devname unit ''%pnpinfo'';
               mib3 = mib_name devname unit ''%parent''
           in case sysctlbyname e mib1 80 of
                None \<Rightarrow> ([mib1], None)
              | Some name \<Rightarrow>
                  let name = strip_name name
                  in case sysctlbyname e mib2 1024 of
                       None \<Rightarrow> ([mib1, mib2], None)
                     | Some pnpinfo \<Rightarrow>
                         (case sysctlbyname e mib3 80 of
                            None \<Rightarrow> ([mib1, mib2, mib3], None)
                          | Some parentname \<Rightarrow>
                              (case legacy_ids e devname pnpinfo parentname of
                                 (product, pnp_id) \<Rightarrow>
                                   ([mib1, mib2, mib3],
                                    Some (sysname, name, Some product, pnp_id)))))"

definition set_parent :: "env \<Rightarrow> udev_device \<Rightarrow> string list \<times> udev_device" where
  "set_parent e ud =
     (case set_parent_args e ud of
        (queries, None) \<Rightarrow> (queries, ud)
      | (queries, Some (sysname, name, product, pnp_id)) \<Rightarrow>
          (case create_xorg_parent (udev_device_new_common e) ud sysname name product pnp_id of
             None \<Rightarrow> (queries, ud)
           | Some parent \<Rightarrow> (queries, udev_device_set_parent ud parent)))"

section \<open>Dispatch handlers (udev-utils.c, lines 496-561)\<close>

definition create_keyboard_handler :: "env \<Rightarrow> udev_device \<Rightarrow> udev_device" where
  "create_keyboard_handler e ud = snd (set_parent e (snd (set_input_device_type ud IT_KEYBOARD)))"

definition create_mouse_handler :: "env \<Rightarrow> udev_device \<Rightarrow> udev_device" where
  "create_mouse_handler e ud = snd (set_parent e (snd (set_input_device_type ud IT_MOUSE)))"

definition create_kbdmux_handler :: "env \<Rightarrow> udev_device \<Rightarrow> udev_device" where
  "create_kbdmux_handler e ud =
     (let ud1 = snd (set_input_device_type ud IT_KEYBOARD);
          sysname = udev_device_get_sysname ud1
      in case create_xorg_parent (udev_device_new_common e) ud1 sysname
                ''System keyboard multiplexor'' (Some ''6/1/1/0'') None of
           None \<Rightarrow> ud1
         | Some parent \<Rightarrow> udev_device_set_parent ud1 parent)"

definition create_sysmouse_handler :: "env \<Rightarrow> udev_device \<Rightarrow> udev_device" where
  "create_sysmouse_handler e ud =
     (let ud1 = snd (set_input_device_type ud IT_MOUSE);
          sysname = udev_device_get_sysname ud1
      in case create_xorg_parent (udev_device_new_common e) ud1 sysname
                ''System mouse'' (Some ''6/2/1/0'') None of
           None \<Rightarrow> ud1
         | Some parent \<Rightarrow> udev_device_set_parent ud1 parent)"

definition create_joystick_handler :: "env \<Rightarrow> udev_device \<Rightarrow> udev_device" where
  "create_joystick_handler e ud = snd (set_parent e (snd (set_input_device_type ud IT_JOYSTICK)))"

definition create_touchpad_handler :: "env \<Rightarrow> udev_device \<Rightarrow> udev_device" where
  "create_touchpad_handler e ud = snd (set_parent e (snd (set_input_device_type ud IT_TOUCHPAD)))"

definition create_touchscreen_handler :: "env \<Rightarrow> udev_device \<Rightarrow> udev_device" where
  "create_touchscreen_handler e ud =
     snd (set_parent e (snd (set_input_device_type ud IT_TOUCHSCREEN)))"

section \<open>The subsystem table (udev-utils.c, lines 74-146)\<close>

text \<open>
  \<open>fnmatch(pattern, string, 0)\<close> of the C library, for single-byte characters: \<open>?\<close>
  matches one character, \<open>*\<close> any run of characters, a bracket expression one character
  of a set (ranges \<open>a-b\<close>, negation by a leading \<open>!\<close> or \<open>^\<close>, a leading \<open>]\<close> is a member),
  and a backslash quotes the next character. A bracket that is never closed stands for
  itself. \<open>fnmatch p s\<close> holds when the C function returns 0.
\<close>

function rangematch :: "string \<Rightarrow> char \<Rightarrow> bool \<Rightarrow> bool \<Rightarrow> (bool \<times> string) option" where
  "rangematch [] test first ok = None"
| "rangematch (c # p) test first ok =
     (if c = CHR '']'' \<and> \<not> first then Some (ok, p)
      else
        (case (if c = CHR 0x5C then p else c # p) of
           [] \<Rightarrow> None
         | c1 # p1 \<Rightarrow>
             (case p1 of
                d # c2 # p2 \<Rightarrow>
                  if d = CHR ''-'' \<and> c2 \<noteq> CHR '']'' then
                    (case (if c2 = CHR 0x5C then p2 else c2 # p2) of
                       [] \<Rightarrow> None
                     | c3 # p3 \<Rightarrow> rangematch p3 test False (ok \<or> (c1 \<le> test \<and> test \<le> c3)))
                  else rangematch p1 test False (ok \<or> c1 = test)
              | _ \<Rightarrow> rangematch p1 test False (ok \<or> c1 = test))))"
  by pat_completeness auto
termination
  by (relation "measure (\<lambda>(p, test, first, ok). length p)") (auto split: if_splits)

declare rangematch.simps [simp del]

definition rangematch_start :: "string \<Rightarrow> char \<Rightarrow> (bool \<times> string) option" where
  "rangematch_start p test =
     (let negate = (p \<noteq> [] \<and> (hd p = CHR ''!'' \<or> hd p = CHR ''^''))
      in case rangematch (if negate then tl p else p) test True False of
           None \<Rightarrow> None
         | Some (ok, rest) \<Rightarrow> Some (ok \<noteq> negate, rest))"

lemma rangematch_length:
  "rangematch p test first ok = Some (m, rest) \<Longrightarrow> length rest < length p"
proof (induction "length p" arbitrary: p first ok rule: less_induct)
  case less
  show ?case
  proof (cases p)
    case Nil
    with less.prems show ?thesis by (simp add: rangematch.simps)
  next
    case (Cons c q)
    have IH: "\<And>r f k. rangematch r test f k = Some (m, rest) \<Longrightarrow> length r < Suc (length q)
                \<Longrightarrow> length rest < length r"
      using less.hyps Cons by simp
    from less.prems have "rangematch (c # q) test first ok = Some (m, rest)"
      by (simp add: Cons)
    then have "length rest < Suc (length q)"
      by (subst (asm) rangematch.simps(2))
         (auto split: if_splits list.splits dest!: IH)
    then show ?thesis by (simp add: Cons)
  qed
qed

lemma rangematch_start_length:
  "rangematch_start p test = Some (m, rest) \<Longrightarrow> length rest < Suc (length p)"
  by (auto simp: rangematch_start_def Let_def split: option.splits if_splits
      dest!: rangematch_length)

function fnmatch :: "string \<Rightarrow> string \<Rightarrow> bool" where
  "fnmatch [] s = (s = [])"
| "fnmatch (c # p) s =
     (if c = CHR ''?'' then (case s of [] \<Rightarrow> False | x # t \<Rightarrow> fnmatch p t)
      else if c = CHR ''*'' then
        (fnmatch p s \<or> (case s of [] \<Rightarrow> False | x # t \<Rightarrow> fnmatch (c # p) t))
      else if c = CHR ''['' then
        (case s of
           [] \<Rightarrow> False
         | x # t \<Rightarrow>
             (case rangematch_start p x of
                None \<Rightarrow> x = c \<and> fnmatch p t
              | Some (m, rest) \<Rightarrow> m \<and> fnmatch rest t))
      else if c = CHR 0x5C then
        (case p of
           [] \<Rightarrow> (case s of [] \<Rightarrow> False | x # t \<Rightarrow> x = c \<and> fnmatch p t)
         | c1 # p1 \<Rightarrow> (case s of [] \<Rightarrow> False | x # t \<Rightarrow> x = c1 \<and> fnmatch p1 t))
      else (case s of [] \<Rightarrow> False | x # t \<Rightarrow> x = c \<and> fnmatch p t))"
  by pat_completeness auto
termination
  by (relation "measure (\<lambda>(p, s). length p + length s)")
     (auto dest: rangematch_start_length)

declare fnmatch.simps [simp del]

text \<open>The handlers of the table are function pointers; the model names them by a tag.\<close>

datatype handler =
  H_create_evdev_handler | H_create_keyboard_handler | H_create_mouse_handler
| H_create_joystick_handler | H_create_touchpad_handler | H_create_touchscreen_handler
| H_create_sysmouse_handler | H_create_kbdmux_handler

record subsystem_config =
  sc_subsystem :: string
  sc_syspath :: string
  sc_flags :: int
  sc_create_handler :: "handler option"

text \<open>
  Modelled from the spec: the macro \<open>DEV_PATH_ROOT\<close> of utils.h, which is not under src/:
  the fixed root of the device nodes, under which every pattern of the table lies.
\<close>

definition DEV_PATH_ROOT :: string where "DEV_PATH_ROOT = ''/dev''"

definition subsystems :: "subsystem_config list" where
  "subsystems =
     [\<lparr>sc_subsystem = ''input'', sc_syspath = DEV_PATH_ROOT @ ''/input/event[0-9]*'',
       sc_flags = 0, sc_create_handler = Some H_create_evdev_handler\<rparr>,
      \<lparr>sc_subsystem = ''input'', sc_syspath = DEV_PATH_ROOT @ ''/ukbd[0-9]*'',
       sc_flags = SCFLAG_SKIP_IF_EVDEV, sc_create_handler = Some H_create_keyboard_handler\<rparr>,
      \<lparr>sc_subsystem = ''input'', sc_syspath = DEV_PATH_ROOT @ ''/atkbd[0-9]*'',
       sc_flags = SCFLAG_SKIP_IF_EVDEV, sc_create_handler = Some H_create_keyboard_handler\<rparr>,
      \<lparr>sc_subsystem = ''input'', sc_syspath = DEV_PATH_ROOT @ ''/kbdmux[0-9]*'',
       sc_flags = SCFLAG_SKIP_IF_EVDEV, sc_create_handler = Some H_create_kbdmux_handler\<rparr>,
      \<lparr>sc_subsystem = ''input'', sc_syspath = DEV_PATH_ROOT @ ''/ums[0-9]*'',
       sc_flags = SCFLAG_SKIP_IF_EVDEV, sc_create_handler = Some H_create_mouse_handler\<rparr>,
      \<lparr>sc_subsystem = ''input'', sc_syspath = DEV_PATH_ROOT @ ''/psm[0-9]*'',
       sc_flags = SCFLAG_SKIP_IF_EVDEV, sc_create_handler = Some H_create_mouse_handler\<rparr>,
      \<lparr>sc_subsystem = ''input'', sc_syspath = DEV_PATH_ROOT @ ''/joy[0-9]*'',
       sc_flags = 0, sc_create_handler = Some H_create_joystick_handler\<rparr>,
      \<lparr>sc_subsystem = ''input'', sc_syspath = DEV_PATH_ROOT @ ''/atp[0-9]*'',
       sc_flags = 0, sc_create_handler = Some H_create_touchpad_handler\<rparr>,
      \<lparr>sc_subsystem = ''input'', sc_syspath = DEV_PATH_ROOT @ ''/wsp[0-9]*'',
       sc_flags = 0, sc_create_handler = Some H_create_touchpad_handler\<rparr>,
      \<lparr>sc_subsystem = ''input'', sc_syspath = DEV_PATH_ROOT @ ''/uep[0-9]*'',
       sc_flags = 0, sc_create_handler = Some H_create_touchscreen_handler\<rparr>,
      \<lparr>sc_subsystem = ''input'', sc_syspath = DEV_PATH_ROOT @ ''/sysmouse'',
       sc_flags = SCFLAG_SKIP_IF_EVDEV, sc_create_handler = Some H_create_sysmouse_handler\<rparr>,
      \<lparr>sc_subsystem = ''input'', sc_syspath = DEV_PATH_ROOT @ ''/vboxguest'',
       sc_flags = 0, sc_create_handler = Some H_create_mouse_handler\<rparr>]"

definition nitems :: "'a list \<Rightarrow> nat" where
  "nitems xs = length xs"

function subsystems_scan :: "nat \<Rightarrow> string \<Rightarrow> subsystem_config option" where
  "subsystems_scan i path =
     (if i < nitems subsystems then
        (if fnmatch (sc_syspath (subsystems ! i)) path then Some (subsystems ! i)
         else subsystems_scan (Suc i) path)
      else None)"
  by pat_completeness auto
termination
  by (relation "measure (\<lambda>(i, path). nitems subsystems - i)") auto

declare subsystems_scan.simps [simp del]

definition get_subsystem_config_by_syspath :: "string \<Rightarrow> subsystem_config option" where
  "get_subsystem_config_by_syspath path = subsystems_scan 0 path"

section \<open>The capability gate (udev-utils.c, lines 148-162)\<close>

text \<open>
  The state of the gate: the static variable \<open>enabled\<close> (\<open>-1\<close> while unset) and the number
  of queries of the kernel flag made so far. The outcome of a query comes from the
  environment (the source leaves the length argument of \<open>sysctlbyname\<close> uninitialised, so
  whether a query succeeds is not decided by the code); a successful query stores the flag,
  0 or 1, in \<open>enabled\<close>.
\<close>

record gate =
  enabled :: int
  queries :: nat

definition gate_init :: gate where
  "gate_init = \<lparr>enabled = -1, queries = 0\<rparr>"

definition kernel_has_evdev_enabled :: "env \<Rightarrow> gate \<Rightarrow> bool \<times> gate" where
  "kernel_has_evdev_enabled e g =
     (if enabled g \<noteq> -1 then (enabled g \<noteq> 0, g)
      else
        (case evdev_support e (queries g) of
           None \<Rightarrow> (False, g\<lparr>queries := queries g + 1\<rparr>)
         | Some b \<Rightarrow>
             let v = (if b then 1 else 0)
             in (v \<noteq> 0, g\<lparr>enabled := v, queries := queries g + 1\<rparr>)))"

text \<open>The results of \<open>n\<close> successive calls, oldest first, and the state they leave.\<close>

fun gate_calls :: "env \<Rightarrow> nat \<Rightarrow> gate \<Rightarrow> bool list \<times> gate" where
  "gate_calls e 0 g = ([], g)"
| "gate_calls e (Suc n) g =
     (case kernel_has_evdev_enabled e g of
        (r, g1) \<Rightarrow> (case gate_calls e n g1 of (rs, g2) \<Rightarrow> (r # rs, g2)))"

section \<open>Dispatch (udev-utils.c, lines 201-217)\<close>

definition call_handler :: "handler \<Rightarrow> env \<Rightarrow> udev_device \<Rightarrow> udev_device" where
  "call_handler h e ud =
     (case h of
        H_create_evdev_handler \<Rightarrow> create_evdev_handler e ud
      | H_create_keyboard_handler \<Rightarrow> create_keyboard_handler e ud
      | H_create_mouse_handler \<Rightarrow> create_mouse_handler e ud
      | H_create_joystick_handler \<Rightarrow> create_joystick_handler e ud
      | H_create_touchpad_handler \<Rightarrow> create_touchpad_handler e ud
      | H_create_touchscreen_handler \<Rightarrow> create_touchscreen_handler e ud
      | H_create_sysmouse_handler \<Rightarrow> create_sysmouse_handler e ud
      | H_create_kbdmux_handler \<Rightarrow> create_kbdmux_handler e ud)"

definition invoke_create_handler :: "env \<Rightarrow> gate \<Rightarrow> udev_device \<Rightarrow> gate \<times> udev_device" where
  "invoke_create_handler e g ud =
     (let path = udev_device_get_syspath ud
      in case get_subsystem_config_by_syspath path of
           None \<Rightarrow> (g, ud)
         | Some sc \<Rightarrow>
             (case sc_create_handler sc of
                None \<Rightarrow> (g, ud)
              | Some h \<Rightarrow>
                  if sc_flags sc AND SCFLAG_SKIP_IF_EVDEV \<noteq> 0 then
                    (case kernel_has_evdev_enabled e g of
                       (en, g1) \<Rightarrow> if en then (g1, ud) else (g1, call_handler h e ud))
                  else (g, call_handler h e ud)))"

section \<open>Path accessors (udev-utils.c, lines 187-199)\<close>

text \<open>Both accessors return the pointer they are given.\<close>

definition get_devpath_by_syspath :: "string \<Rightarrow> string" where
  "get_devpath_by_syspath syspath = syspath"

definition get_syspath_by_devpath :: "string \<Rightarrow> string" where
  "get_syspath_by_devpath devpath = devpath"

section \<open>The behaviour the specification states\<close>

text \<open>
  The decision tree of the specification (section 4.3), over the three bitsets read as
  predicates on event codes: \<open>K\<close> for key events, \<open>R\<close> for relative axes, \<open>A\<close> for
  absolute axes. \<open>forced_buttons\<close> is \<open>has_buttons\<close> after step 2a, which forces it for a
  multitouch device without ordinary buttons that is not a joystick.
\<close>

definition spec_classify ::
  "(nat \<Rightarrow> bool) \<Rightarrow> (nat \<Rightarrow> bool) \<Rightarrow> (nat \<Rightarrow> bool) \<Rightarrow> input_type" where
  "spec_classify K R A =
     (let has_keys = (\<exists>c \<in> {0..<BTN_MISC}. K c);
          has_buttons = (\<exists>c \<in> {BTN_MISC..<BTN_JOYSTICK}. K c);
          has_lmr = (K BTN_LEFT \<or> K BTN_RIGHT \<or> K BTN_MIDDLE);
          has_rel_axes = (\<exists>c \<in> {0..<REL_CNT}. R c);
          has_abs_axes = (\<exists>c \<in> {0..<ABS_CNT}. A c);
          has_multitouch = (\<exists>c \<in> {ABS_MT_SLOT..<ABS_CNT}. A c);
          xy = (has_abs_axes \<and> A ABS_X \<and> A ABS_Y);
          forced_buttons = (has_buttons \<or> (has_abs_axes \<and> has_multitouch))
      in if has_abs_axes \<and> has_multitouch \<and> \<not> has_buttons \<and> K BTN_JOYSTICK then IT_JOYSTICK
         else if xy \<and> (K BTN_TOOL_PEN \<or> K BTN_STYLUS \<or> K BTN_STYLUS2) then IT_TABLET
         else if xy \<and> (A ABS_PRESSURE \<or> K BTN_TOUCH)
         then (if has_lmr \<or> K BTN_TOOL_FINGER then IT_TOUCHPAD else IT_TOUCHSCREEN)
         else if xy \<and> \<not> (R REL_X \<and> R REL_Y) \<and> has_lmr then IT_TOUCHSCREEN
         else if has_keys then IT_KEYBOARD
         else if has_rel_axes \<or> has_abs_axes \<or> forced_buttons then IT_MOUSE
         else IT_NONE)"

text \<open>The type-specific markers the specification lists for each classification.\<close>

definition spec_markers :: "input_type \<Rightarrow> string set" where
  "spec_markers t =
     (case t of
        IT_NONE \<Rightarrow> {}
      | IT_KEYBOARD \<Rightarrow> {''ID_INPUT_KEY'', ''ID_INPUT_KEYBOARD''}
      | IT_MOUSE \<Rightarrow> {''ID_INPUT_MOUSE''}
      | IT_TOUCHPAD \<Rightarrow> {''ID_INPUT_MOUSE'', ''ID_INPUT_TOUCHPAD''}
      | IT_TOUCHSCREEN \<Rightarrow> {''ID_INPUT_TOUCHSCREEN''}
      | IT_JOYSTICK \<Rightarrow> {''ID_INPUT_JOYSTICK''}
      | IT_TABLET \<Rightarrow> {''ID_INPUT_TABLET''})"

text \<open>
  The unit number of a short name is its longest suffix of decimal digits; the driver
  base name is what precedes it.
\<close>

definition is_digit :: "char \<Rightarrow> bool" where
  "is_digit c = (CHR ''0'' \<le> c \<and> c \<le> CHR ''9'')"

definition unit_of :: "string \<Rightarrow> string" where
  "unit_of sysname = rev (takeWhile is_digit (rev sysname))"

definition driver_of :: "string \<Rightarrow> string" where
  "driver_of sysname = rev (dropWhile is_digit (rev sysname))"

text \<open>The value of a string of hexadecimal digits, most significant digit first.\<close>

definition hex_value :: "string \<Rightarrow> nat" where
  "hex_value s = foldl (\<lambda>v c. 16 * v + the (digit_val c)) 0 s"

text \<open>The environment whose parser finds no \<open>_HID\<close> key and is otherwise as in \<open>e\<close>.\<close>

definition without_hid :: "env \<Rightarrow> env" where
  "without_hid e =
     e\<lparr>get_kern_prop_value :=
         (\<lambda>buf prop. if prop = ''_HID'' then None else get_kern_prop_value e buf prop)\<rparr>"

text \<open>
  What the code reads at the pointer of a key when it computes the numbers: the C string
  at the offset of the value, in the buffer as line 461 leaves it.
\<close>

definition terminated_pnpinfo :: "env \<Rightarrow> string \<Rightarrow> string" where
  "terminated_pnpinfo e pnpinfo =
     (case retained_pnp_id pnpinfo (get_kern_prop_value e pnpinfo ''_HID'') of
        None \<Rightarrow> pnpinfo
      | Some (off, l) \<Rightarrow> pnpinfo[off + l := NUL])"

definition value_at :: "env \<Rightarrow> string \<Rightarrow> string \<Rightarrow> string option" where
  "value_at e pnpinfo key =
     (case get_kern_prop_value e pnpinfo key of
        None \<Rightarrow> None
      | Some (off, l) \<Rightarrow> Some (cstr_at (terminated_pnpinfo e pnpinfo) off))"

section \<open>Sample inputs\<close>

definition touchpad_keys :: "ulong list" where
  "touchpad_keys = [0, 0, 0, 0, 0, 32, 0, 0, 0, 0, 0, 0]"

definition no_keys :: "ulong list" where
  "no_keys = [0, 0, 0, 0, 0, 0, 0, 0, 0, 0, 0, 0]"

definition silent_node :: evdev_node where
  "silent_node = \<lparr>ev_name = Some ''Generic, Inc Mouse'', ev_phys = Phys_ENOENT [],
     ev_id = Some \<lparr>id_bustype = 3, id_vendor = 0x46d, id_product = 0xc31c, id_version = 0x110\<rparr>,
     ev_rel_bits = Some [0], ev_abs_bits = Some [0], ev_key_bits = Some no_keys\<rparr>"

definition silent_env :: env where
  "silent_env = \<lparr>evdev_support = (\<lambda>n. None), open_node = (\<lambda>p. Some silent_node),
     sysctl_tree = (\<lambda>m. None),
     udev_device_new_common = (\<lambda>s. Some (Udev_device s [] [] None)),
     get_kern_prop_value = (\<lambda>b k. None)\<rparr>"

definition flaky_kernel :: env where
  "flaky_kernel = \<lparr>evdev_support = (\<lambda>n. if n < 2 then None else Some True),
     open_node = (\<lambda>p. None), sysctl_tree = (\<lambda>m. None),
     udev_device_new_common = (\<lambda>s. None), get_kern_prop_value = (\<lambda>b k. None)\<rparr>"

text \<open>
  A parser for the sample environments: the offset and the length of the value of \<open>key\<close>
  in a blob of \<open>key=value\<close> pairs separated by spaces.
\<close>

fun find_prop :: "string \<Rightarrow> string \<Rightarrow> nat \<Rightarrow> bool \<Rightarrow> (nat \<times> nat) option" where
  "find_prop [] key off at_start = None"
| "find_prop (c # cs) key off at_start =
     (if at_start \<and> take (length key + 1) (c # cs) = key @ ''=''
      then Some (off + length key + 1,
                 length (takeWhile (\<lambda>x. x \<noteq> CHR '' '') (drop (length key + 1) (c # cs))))
      else find_prop cs key (off + 1) (c = CHR '' ''))"

definition blob_lookup :: "string \<Rightarrow> string \<Rightarrow> (nat \<times> nat) option" where
  "blob_lookup buf key = find_prop buf key 0 True"

definition touchpad_node :: evdev_node where
  "touchpad_node = \<lparr>ev_name = Some ''Generic, Inc Touchpad'', ev_phys = Phys ''usb-0:1/input0'',
     ev_id = Some \<lparr>id_bustype = 3, id_vendor = 0x46d, id_product = 0xc31c, id_version = 0x110\<rparr>,
     ev_rel_bits = Some [0], ev_abs_bits = Some [16777219], ev_key_bits = Some touchpad_keys\<rparr>"

definition sample_tree :: "string \<Rightarrow> string option" where
  "sample_tree = map_of
     [(''dev.ums.0.%desc'', ''Generic, Inc Mouse''),
      (''dev.ums.0.%pnpinfo'', ''vendor=0x046d product=0xc31c devclass=0x00''),
      (''dev.ums.0.%parent'', ''uhub0''),
      (''dev.atkbd.0.%desc'', ''AT Keyboard''),
      (''dev.atkbd.0.%pnpinfo'', ''_HID=PNP0303 _UID=0''),
      (''dev.atkbd.0.%parent'', ''atkbdc0''),
      (''dev.psm.0.%desc'', ''PS/2 Mouse''),
      (''dev.psm.0.%pnpinfo'', ''_HID=none _UID=0''),
      (''dev.psm.0.%parent'', ''atkbdc0''),
      (''dev.joy.0.%desc'', ''PC joystick''),
      (''dev.joy.0.%pnpinfo'', [])]"

definition sample_env :: "bool \<Rightarrow> env" where
  "sample_env b = \<lparr>evdev_support = (\<lambda>n. Some b),
     open_node = (\<lambda>p. if p = ''/dev/input/event7'' then Some touchpad_node else None),
     sysctl_tree = sample_tree,
     udev_device_new_common = (\<lambda>s. Some (Udev_device s [] [] None)),
     get_kern_prop_value = blob_lookup\<rparr>"

section \<open>Auxiliary lemmas\<close>


lemmas input_codes =
  KEY_CNT_def REL_CNT_def ABS_CNT_def BTN_MISC_def BTN_LEFT_def BTN_RIGHT_def BTN_MIDDLE_def
  BTN_JOYSTICK_def BTN_TOOL_PEN_def BTN_TOOL_FINGER_def BTN_TOUCH_def BTN_STYLUS_def
  BTN_STYLUS2_def REL_X_def REL_Y_def ABS_X_def ABS_Y_def ABS_PRESSURE_def ABS_MT_SLOT_def

lemmas device_defs =
  udev_device_get_syspath_def udev_device_get_devnode_def udev_device_get_properties_list_def
  udev_device_get_sysattr_list_def set_properties_list_def set_sysattr_list_def
  udev_device_set_parent_def udev_list_insert_def insert_property_def

lemma bit_find_iff:
  "bit_find a i stop \<longleftrightarrow> (\<exists>b. i \<le> b \<and> b < stop \<and> bit_is_set a b)"
proof (induction a i stop rule: bit_find.induct)
  case (1 a i stop)
  show ?case
  proof (cases "i < stop")
    case False
    then show ?thesis by (simp add: bit_find.simps [of a i stop])
  next
    case lt: True
    show ?thesis
    proof (cases "bit_is_set a i")
      case True
      with lt show ?thesis by (auto simp: bit_find.simps [of a i stop])
    next
      case False
      have "bit_find a i stop = bit_find a (Suc i) stop"
        using lt False by (simp add: bit_find.simps [of a i stop])
      also have "\<dots> \<longleftrightarrow> (\<exists>b. Suc i \<le> b \<and> b < stop \<and> bit_is_set a b)"
        using 1 lt False by simp
      also have "\<dots> \<longleftrightarrow> (\<exists>b. i \<le> b \<and> b < stop \<and> bit_is_set a b)"
        using False by (metis Suc_leD Suc_leI le_neq_implies_less)
      finally show ?thesis .
    qed
  qed
qed

lemma ex_range3:
  "(\<exists>b::nat. 272 \<le> b \<and> b < 275 \<and> P b) \<longleftrightarrow> P 272 \<or> P 273 \<or> P 274"
  (is "?L \<longleftrightarrow> ?R")
proof
  assume ?L
  then obtain b where b: "272 \<le> b" "b < 275" "P b" by blast
  then have "b = 272 \<or> b = 273 \<or> b = 274" by arith
  with b(3) show ?R by blast
next
  assume ?R
  then show ?L
  proof (elim disjE)
    assume "P 272" then show ?L by (intro exI [of _ 272]) simp
  next
    assume "P 273" then show ?L by (intro exI [of _ 273]) simp
  next
    assume "P 274" then show ?L by (intro exI [of _ 274]) simp
  qed
qed

lemma has_lmr_iff:
  "bit_find a BTN_LEFT (BTN_MIDDLE + 1)
     \<longleftrightarrow> bit_is_set a BTN_LEFT \<or> bit_is_set a BTN_RIGHT \<or> bit_is_set a BTN_MIDDLE"
  by (simp add: bit_find_iff BTN_LEFT_def BTN_MIDDLE_def BTN_RIGHT_def ex_range3)

lemma evdev_probe_spec:
  "evdev_probe key_bits rel_bits abs_bits =
     (let t = spec_classify (bit_is_set key_bits) (bit_is_set rel_bits) (bit_is_set abs_bits)
      in if t = IT_NONE then None else Some t)"
proof -
  define hk where "hk = bit_find key_bits 0 BTN_MISC"
  define hb where "hb = bit_find key_bits BTN_MISC BTN_JOYSTICK"
  define hr where "hr = bit_find rel_bits 0 REL_CNT"
  define ha where "ha = bit_find abs_bits 0 ABS_CNT"
  define hm where "hm = bit_find abs_bits ABS_MT_SLOT ABS_CNT"
  define hl where "hl = bit_find key_bits BTN_LEFT (BTN_MIDDLE + 1)"
  have e1: "(\<exists>c \<in> {0..<BTN_MISC}. bit_is_set key_bits c) = hk"
    and e2: "(\<exists>c \<in> {BTN_MISC..<BTN_JOYSTICK}. bit_is_set key_bits c) = hb"
    and e3: "(\<exists>c \<in> {0..<REL_CNT}. bit_is_set rel_bits c) = hr"
    and e4: "(\<exists>c \<in> {0..<ABS_CNT}. bit_is_set abs_bits c) = ha"
    and e5: "(\<exists>c \<in> {ABS_MT_SLOT..<ABS_CNT}. bit_is_set abs_bits c) = hm"
    by (simp_all add: hk_def hb_def hr_def ha_def hm_def bit_find_iff Bex_def)
  have e6: "(bit_is_set key_bits BTN_LEFT \<or> bit_is_set key_bits BTN_RIGHT
               \<or> bit_is_set key_bits BTN_MIDDLE) = hl"
    unfolding hl_def has_lmr_iff ..
  have code: "evdev_probe key_bits rel_bits abs_bits =
     (case (if ha then probe_abs key_bits rel_bits abs_bits hb hl hm else Inr hb) of
        Inl t \<Rightarrow> Some t
      | Inr b \<Rightarrow> if hk then Some IT_KEYBOARD else if hr \<or> ha \<or> b then Some IT_MOUSE else None)"
    unfolding evdev_probe_def Let_def hk_def hb_def hr_def ha_def hm_def hl_def
    by (simp split: sum.splits)
  show ?thesis
    unfolding code spec_classify_def Let_def e1 e2 e3 e4 e5 e6
    by (cases ha; cases hm; cases hb; cases hk; simp add: probe_abs_def)
qed

lemma create_evdev_handler_none:
  assumes "open_node e (udev_device_get_devnode ud) = Some fd"
    and "query_evdev fd = Some (name, phys, iid, rel_bits, abs_bits, key_bits)"
    and "evdev_probe key_bits rel_bits abs_bits = None"
  shows "create_evdev_handler e ud = ud"
  using assms by (simp add: create_evdev_handler_def)

lemma probe_touchpad: "evdev_probe touchpad_keys [0] [16777219] = Some IT_TOUCHPAD"
  by (simp add: evdev_probe_def probe_abs_def bit_find.simps bit_is_set_def LONG_BITS_def
      input_codes touchpad_keys_def)

lemma probe_nothing: "evdev_probe no_keys [0] [0] = None"
  by (simp add: evdev_probe_def probe_abs_def bit_find.simps bit_is_set_def LONG_BITS_def
      input_codes no_keys_def)

lemma insert_property_eq:
  "insert_property ud k v =
     (0, Udev_device (ud_syspath ud) (AList.update k (Some v) (ud_prop_list ud))
           (ud_sysattr_list ud) (ud_parent ud))"
  by (simp add: device_defs)

lemma set_input_device_type_props:
  "map_of (ud_prop_list (snd (set_input_device_type ud t))) k =
     (if k = ''ID_INPUT'' \<or> k \<in> spec_markers t then Some (Some ''1'')
      else map_of (ud_prop_list ud) k)"
  by (cases t)
     (simp_all add: set_input_device_type_def insert_property_eq spec_markers_def update_conv')

lemma set_input_device_type_fields:
  "fst (set_input_device_type ud t) = 0"
  "ud_syspath (snd (set_input_device_type ud t)) = ud_syspath ud"
  "ud_sysattr_list (snd (set_input_device_type ud t)) = ud_sysattr_list ud"
  "ud_parent (snd (set_input_device_type ud t)) = ud_parent ud"
  by (cases t; simp add: set_input_device_type_def insert_property_eq)+

lemma gate_calls_failing:
  "enabled g = -1 \<Longrightarrow> (\<forall>i<k. evdev_support e (queries g + i) = None)
   \<Longrightarrow> gate_calls e k g = (replicate k False, g\<lparr>queries := queries g + k\<rparr>)"
proof (induction k arbitrary: g)
  case 0
  then show ?case by simp
next
  case (Suc k)
  let ?g1 = "g\<lparr>queries := queries g + 1\<rparr>"
  from Suc.prems have first: "evdev_support e (queries g) = None"
    by (metis add.right_neutral zero_less_Suc)
  with Suc.prems have step: "kernel_has_evdev_enabled e g = (False, ?g1)"
    by (simp add: kernel_has_evdev_enabled_def)
  have "\<forall>i<k. evdev_support e (queries ?g1 + i) = None"
  proof (intro allI impI)
    fix i assume "i < k"
    then have "evdev_support e (queries g + Suc i) = None"
      using Suc.prems(2) by (meson Suc_less_eq)
    then show "evdev_support e (queries ?g1 + i) = None" by simp
  qed
  with Suc.IH [of ?g1] Suc.prems(1)
  have "gate_calls e k ?g1 = (replicate k False, ?g1\<lparr>queries := queries ?g1 + k\<rparr>)"
    by simp
  with step show ?case by simp
qed

lemma gate_calls_cached:
  "enabled g \<noteq> -1 \<Longrightarrow> gate_calls e n g = (replicate n (enabled g \<noteq> 0), g)"
  by (induction n) (simp_all add: kernel_has_evdev_enabled_def)

lemma gate_calls_append:
  "gate_calls e (m + n) g =
     (fst (gate_calls e m g) @ fst (gate_calls e n (snd (gate_calls e m g))),
      snd (gate_calls e n (snd (gate_calls e m g))))"
  by (induction m arbitrary: g) (simp_all add: split_beta)

lemma gate_calls_success:
  assumes "enabled g = -1" and "evdev_support e (queries g) = Some b"
  shows "gate_calls e (Suc n) g =
           (replicate (Suc n) b, g\<lparr>enabled := (if b then 1 else 0), queries := queries g + 1\<rparr>)"
proof -
  let ?g1 = "g\<lparr>enabled := (if b then 1 else 0), queries := queries g + 1\<rparr>"
  have step: "kernel_has_evdev_enabled e g = (b, ?g1)"
    using assms by (simp add: kernel_has_evdev_enabled_def)
  have "enabled ?g1 \<noteq> -1" by simp
  then have "gate_calls e n ?g1 = (replicate n (enabled ?g1 \<noteq> 0), ?g1)"
    by (rule gate_calls_cached)
  then have "gate_calls e n ?g1 = (replicate n b, ?g1)" by simp
  with step show ?thesis by simp
qed

lemmas fnmatch_eval = fnmatch.simps rangematch.simps rangematch_start_def

lemma subsystems_scan_find:
  "subsystems_scan i path = List.find (\<lambda>sc. fnmatch (sc_syspath sc) path) (drop i subsystems)"
proof (induction i path rule: subsystems_scan.induct)
  case (1 i path)
  show ?case
  proof (cases "i < nitems subsystems")
    case False
    then show ?thesis by (simp add: subsystems_scan.simps [of i path] nitems_def)
  next
    case True
    then have d: "drop i subsystems = subsystems ! i # drop (Suc i) subsystems"
      by (simp add: nitems_def Cons_nth_drop_Suc)
    show ?thesis
    proof (cases "fnmatch (sc_syspath (subsystems ! i)) path")
      case True
      with \<open>i < nitems subsystems\<close> d show ?thesis
        by (simp add: subsystems_scan.simps [of i path])
    next
      case False
      with \<open>i < nitems subsystems\<close> d "1.IH" show ?thesis
        by (simp add: subsystems_scan.simps [of i path])
    qed
  qed
qed

lemma resolve_find:
  "get_subsystem_config_by_syspath path =
     List.find (\<lambda>sc. fnmatch (sc_syspath sc) path) subsystems"
  by (simp add: get_subsystem_config_by_syspath_def subsystems_scan_find)

lemma invoke_create_handler_device:
  "snd (invoke_create_handler e g ud) =
     (case get_subsystem_config_by_syspath (ud_syspath ud) of
        None \<Rightarrow> ud
      | Some sc \<Rightarrow>
          (case sc_create_handler sc of
             None \<Rightarrow> ud
           | Some h \<Rightarrow>
               if sc_flags sc AND SCFLAG_SKIP_IF_EVDEV \<noteq> 0 \<and> fst (kernel_has_evdev_enabled e g)
               then ud else call_handler h e ud))"
  by (simp add: invoke_create_handler_def udev_device_get_syspath_def split_beta
      split: option.splits)

lemma fnmatch_literal:
  "c \<noteq> CHR ''?'' \<Longrightarrow> c \<noteq> CHR ''*'' \<Longrightarrow> c \<noteq> CHR ''['' \<Longrightarrow> c \<noteq> CHR 0x5C
   \<Longrightarrow> fnmatch (c # p) s = (case s of [] \<Rightarrow> False | x # t \<Rightarrow> x = c \<and> fnmatch p t)"
  by (simp add: fnmatch.simps)

lemma ukbd_not_event:
  "fnmatch ''/dev/ukbd[0-9]*'' path \<Longrightarrow> \<not> fnmatch ''/dev/input/event[0-9]*'' path"
  by (auto simp: fnmatch_literal split: list.splits)

lemma resolve_event:
  assumes "fnmatch (DEV_PATH_ROOT @ ''/input/event[0-9]*'') path"
  shows "get_subsystem_config_by_syspath path = Some (subsystems ! 0)"
  using assms by (simp add: resolve_find subsystems_def)

lemma resolve_ukbd:
  assumes "fnmatch (DEV_PATH_ROOT @ ''/ukbd[0-9]*'') path"
  shows "get_subsystem_config_by_syspath path = Some (subsystems ! 1)"
proof -
  from assms have m: "fnmatch ''/dev/ukbd[0-9]*'' path" by (simp add: DEV_PATH_ROOT_def)
  then have "\<not> fnmatch ''/dev/input/event[0-9]*'' path" by (rule ukbd_not_event)
  with m show ?thesis by (simp add: resolve_find subsystems_def DEV_PATH_ROOT_def)
qed

lemmas legacy_eval =
  set_parent_def set_parent_args_def udev_device_get_sysname_def get_sysname_by_syspath_def
  strbase_def syspathlen_wo_units_def syspathlen_loop.simps snprintf_def mib_name_def
  sysctlbyname_def strip_name_def create_xorg_parent_def

lemma probe_touchpad_node:
  "create_evdev_handler (sample_env b) (Udev_device ''/dev/input/event7'' [] [] None)
    = Udev_device ''/dev/input/event7''
        [(''ID_INPUT'', Some ''1''), (''ID_INPUT_MOUSE'', Some ''1''),
         (''ID_INPUT_TOUCHPAD'', Some ''1'')] []
        (Some (Udev_device ''usb-0:1/input0''
           [(''NAME'', Some ''Generic''), (''PRODUCT'', Some ''3/46d/c31c/110'')]
           [(''name'', Some ''Generic'')] None))"
  by (simp add: create_evdev_handler_def sample_env_def touchpad_node_def query_evdev_def
      probe_touchpad device_defs set_input_device_type_def create_xorg_parent_def
      strip_name_def snprintf_def fmt_x.simps hex_digit_def Let_def)

lemma keyboard_without_metadata:
  "create_keyboard_handler (sample_env b) (Udev_device ''/dev/ukbd0'' [] [] None)
    = Udev_device ''/dev/ukbd0''
        [(''ID_INPUT'', Some ''1''), (''ID_INPUT_KEY'', Some ''1''),
         (''ID_INPUT_KEYBOARD'', Some ''1'')] [] None"
  by (simp add: create_keyboard_handler_def sample_env_def sample_tree_def device_defs
      set_input_device_type_def legacy_eval)

lemma not_digit_iff: "(c < CHR ''0'' \<or> c > CHR ''9'') \<longleftrightarrow> \<not> is_digit c"
  by (auto simp: is_digit_def)

lemma syspathlen_loop_eq:
  "n \<le> length path \<Longrightarrow>
   syspathlen_loop path n = n - length (takeWhile is_digit (rev (take n path)))"
proof (induction n)
  case 0
  then show ?case by (simp add: syspathlen_loop.simps [of path 0])
next
  case (Suc n)
  then have t: "take (Suc n) path = take n path @ [path ! n]"
    by (simp add: take_Suc_conv_app_nth)
  show ?case
  proof (cases "is_digit (path ! n)")
    case True
    then have "syspathlen_loop path (Suc n) = syspathlen_loop path n"
      by (simp add: syspathlen_loop.simps [of path "Suc n"] not_digit_iff)
    with Suc True t show ?thesis by simp
  next
    case False
    then have "syspathlen_loop path (Suc n) = Suc n"
      by (simp add: syspathlen_loop.simps [of path "Suc n"] not_digit_iff)
    with False t show ?thesis by simp
  qed
qed

lemma driver_unit_split: "driver_of s @ unit_of s = s"
proof -
  have "driver_of s @ unit_of s
          = rev (takeWhile is_digit (rev s) @ dropWhile is_digit (rev s))"
    by (simp only: driver_of_def unit_of_def rev_append)
  also have "\<dots> = rev (rev s)" by (simp only: takeWhile_dropWhile_id)
  finally show ?thesis by simp
qed

lemma syspathlen_wo_units_eq: "syspathlen_wo_units s = length (driver_of s)"
proof -
  have "length s = length (driver_of s) + length (unit_of s)"
    by (metis driver_unit_split length_append)
  then show ?thesis
    by (simp add: syspathlen_wo_units_def syspathlen_loop_eq unit_of_def)
qed

lemma take_driver: "take (syspathlen_wo_units s) s = driver_of s"
  by (metis append_eq_conv_conj driver_unit_split syspathlen_wo_units_eq)

lemma drop_unit: "drop (syspathlen_wo_units s) s = unit_of s"
  by (metis append_eq_conv_conj driver_unit_split syspathlen_wo_units_eq)

lemma no_unit_iff: "length s = syspathlen_wo_units s \<longleftrightarrow> unit_of s = []"
proof -
  have "length s = length (driver_of s) + length (unit_of s)"
    by (metis driver_unit_split length_append)
  then show ?thesis by (simp add: syspathlen_wo_units_eq)
qed

lemma set_parent_args_unfold:
  "set_parent_args e ud =
     (let sysname = udev_device_get_sysname ud;
          devname = driver_of sysname; unit = unit_of sysname;
          mib1 = mib_name devname unit ''%desc'';
          mib2 = mib_name devname unit ''%pnpinfo'';
          mib3 = mib_name devname unit ''%parent''
      in if unit = [] then ([], None)
         else case sysctlbyname e mib1 80 of
                None \<Rightarrow> ([mib1], None)
              | Some name \<Rightarrow>
                  (case sysctlbyname e mib2 1024 of
                     None \<Rightarrow> ([mib1, mib2], None)
                   | Some pnpinfo \<Rightarrow>
                       (case sysctlbyname e mib3 80 of
                          None \<Rightarrow> ([mib1, mib2, mib3], None)
                        | Some parentname \<Rightarrow>
                            ([mib1, mib2, mib3],
                             Some (sysname, strip_name name,
                                   Some (fst (legacy_ids e devname pnpinfo parentname)),
                                   snd (legacy_ids e devname pnpinfo parentname))))))"
  by (simp add: set_parent_args_def Let_def no_unit_iff snprintf_def take_driver drop_unit
      split_beta split: option.splits)

lemmas sample_names =
  udev_device_get_sysname_def get_sysname_by_syspath_def strbase_def unit_of_def driver_of_def
  is_digit_def mib_name_def snprintf_def sysctlbyname_def sample_env_def sample_tree_def

lemma strip_name_takeWhile: "strip_name s = takeWhile (\<lambda>c. c \<noteq> CHR '','') s"
proof -
  have "take (strchrnul s c) s = takeWhile (\<lambda>x. x \<noteq> c) s" for c
    by (induction s) simp_all
  then show ?thesis by (simp add: strip_name_def)
qed

lemma create_xorg_parent_some:
  assumes "new sysname = Some p0"
  shows "\<exists>p. create_xorg_parent new ud sysname name prd pnp_id = Some p
    \<and> map_of (ud_prop_list p) ''NAME'' = Some (Some name)
    \<and> map_of (ud_sysattr_list p) ''name'' = Some (Some name)
    \<and> (prd \<noteq> None \<longrightarrow> map_of (ud_prop_list p) ''PRODUCT'' = Some prd)
    \<and> (pnp_id \<noteq> None \<longrightarrow> map_of (ud_sysattr_list p) ''id'' = Some prd)
    \<and> (pnp_id = None \<longrightarrow> map_of (ud_sysattr_list p) ''id'' = map_of (ud_sysattr_list p0) ''id'')"
  using assms by (simp add: create_xorg_parent_def device_defs Let_def update_conv')

lemma evdev_parent_name:
  assumes "open_node e (udev_device_get_devnode ud) = Some fd"
    and "query_evdev fd = Some (name, phys, iid, rel_bits, abs_bits, key_bits)"
    and "evdev_probe key_bits rel_bits abs_bits = Some t"
    and "udev_device_new_common e (if phys = [] then virtual_sysname else phys) = Some p0"
  shows "\<exists>p. ud_parent (create_evdev_handler e ud) = Some p
    \<and> map_of (ud_prop_list p) ''NAME'' = Some (Some (strip_name name))
    \<and> map_of (ud_sysattr_list p) ''name'' = Some (Some (strip_name name))"
proof -
  let ?ud1 = "snd (set_input_device_type ud t)"
  let ?sysname = "if phys = [] then virtual_sysname else phys"
  let ?product = "snprintf 80
       (fmt_x (unat (id_bustype iid)) @ ''/'' @ fmt_x (unat (id_vendor iid)) @ ''/''
        @ fmt_x (unat (id_product iid)) @ ''/'' @ fmt_x (unat (id_version iid)))"
  from create_xorg_parent_some [where new = "udev_device_new_common e" and sysname = ?sysname
      and ud = ?ud1 and name = "strip_name name" and prd = "Some ?product" and pnp_id = None,
      OF assms(4)]
  obtain p where p: "create_xorg_parent (udev_device_new_common e) ?ud1 ?sysname
                       (strip_name name) (Some ?product) None = Some p"
    and n: "map_of (ud_prop_list p) ''NAME'' = Some (Some (strip_name name))"
           "map_of (ud_sysattr_list p) ''name'' = Some (Some (strip_name name))"
    by blast
  have "create_evdev_handler e ud = udev_device_set_parent ?ud1 p"
    using assms(1-3) p by (simp add: create_evdev_handler_def Let_def)
  then have "ud_parent (create_evdev_handler e ud) = Some p"
    by (simp add: udev_device_set_parent_def)
  with n show ?thesis by blast
qed

lemma legacy_parent_name:
  assumes "unit_of (udev_device_get_sysname ud) \<noteq> []"
    and "sysctlbyname e (mib_name (driver_of (udev_device_get_sysname ud))
            (unit_of (udev_device_get_sysname ud)) ''%desc'') 80 = Some desc"
    and "sysctlbyname e (mib_name (driver_of (udev_device_get_sysname ud))
            (unit_of (udev_device_get_sysname ud)) ''%pnpinfo'') 1024 = Some pnpinfo"
    and "sysctlbyname e (mib_name (driver_of (udev_device_get_sysname ud))
            (unit_of (udev_device_get_sysname ud)) ''%parent'') 80 = Some parentname"
    and "udev_device_new_common e (udev_device_get_sysname ud) = Some p0"
  shows "\<exists>p. ud_parent (snd (set_parent e ud)) = Some p
    \<and> map_of (ud_prop_list p) ''NAME'' = Some (Some (strip_name desc))
    \<and> map_of (ud_sysattr_list p) ''name'' = Some (Some (strip_name desc))"
proof -
  let ?sn = "udev_device_get_sysname ud"
  let ?ids = "legacy_ids e (driver_of ?sn) pnpinfo parentname"
  from create_xorg_parent_some [where new = "udev_device_new_common e" and sysname = ?sn
      and ud = ud and name = "strip_name desc" and prd = "Some (fst ?ids)"
      and pnp_id = "snd ?ids", OF assms(5)]
  obtain p where p: "create_xorg_parent (udev_device_new_common e) ud ?sn
                       (strip_name desc) (Some (fst ?ids)) (snd ?ids) = Some p"
    and n: "map_of (ud_prop_list p) ''NAME'' = Some (Some (strip_name desc))"
           "map_of (ud_sysattr_list p) ''name'' = Some (Some (strip_name desc))"
    by blast
  have "snd (set_parent e ud) = udev_device_set_parent ud p"
    using assms(1-4) p by (simp add: set_parent_def set_parent_args_unfold Let_def)
  then have "ud_parent (snd (set_parent e ud)) = Some p"
    by (simp add: udev_device_set_parent_def)
  with n show ?thesis by blast
qed

lemma cstr_at_terminated:
  assumes "NUL \<notin> set buf"
  shows "cstr_at (buf[off + l := NUL]) off = take l (drop off buf)"
proof -
  let ?xs = "drop off buf"
  have nn: "\<forall>x \<in> set (take l ?xs). x \<noteq> NUL"
    using assms by (metis in_set_dropD in_set_takeD)
  have d: "drop off (buf[off + l := NUL]) = ?xs[l := NUL]"
    by (simp add: drop_update_swap)
  show ?thesis
  proof (cases "l < length ?xs")
    case True
    then have "?xs[l := NUL] = take l ?xs @ NUL # drop (Suc l) ?xs"
      by (rule upd_conv_take_nth_drop)
    with nn show ?thesis by (simp add: cstr_at_def d takeWhile_append2 del: take_drop)
  next
    case False
    then have "?xs[l := NUL] = ?xs" "take l ?xs = ?xs"
      by (simp_all add: list_update_beyond)
    moreover have "takeWhile (\<lambda>c. c \<noteq> NUL) ?xs = ?xs"
      using assms by (metis (mono_tags, lifting) in_set_dropD takeWhile_eq_all_conv)
    ultimately show ?thesis by (simp add: cstr_at_def d del: take_drop)
  qed
qed

lemma legacy_ids_pnp:
  "snd (legacy_ids e devname pnpinfo parentname) =
     (case retained_pnp_id pnpinfo (get_kern_prop_value e pnpinfo ''_HID'') of
        None \<Rightarrow> None
      | Some (off, l) \<Rightarrow> Some (cstr_at (pnpinfo[off + l := NUL]) off))"
  by (simp add: legacy_ids_def Let_def split_beta split: option.splits)

lemma legacy_ids_cong:
  assumes "get_kern_prop_value e pnpinfo ''vendor'' = get_kern_prop_value e' pnpinfo ''vendor''"
    and "get_kern_prop_value e pnpinfo ''product'' = get_kern_prop_value e' pnpinfo ''product''"
    and "get_kern_prop_value e pnpinfo ''device'' = get_kern_prop_value e' pnpinfo ''device''"
    and "retained_pnp_id pnpinfo (get_kern_prop_value e pnpinfo ''_HID'')
          = retained_pnp_id pnpinfo (get_kern_prop_value e' pnpinfo ''_HID'')"
  shows "legacy_ids e devname pnpinfo parentname = legacy_ids e' devname pnpinfo parentname"
  using assms by (simp add: legacy_ids_def)

lemmas ids_eval =
  legacy_ids_def retained_pnp_id_def cstr_at_def NUL_def blob_lookup_def
  bus_vendor_product_def strtol0_def strtol_magnitude_def is_hex_prefix_def digit_val_def
  isspace_def LONG_MAX_def LONG_MIN_def BUS_USB_def BUS_PCI_def BUS_I8042_def BUS_VIRTUAL_def
  PS2_KEYBOARD_VENDOR_def PS2_KEYBOARD_PRODUCT_def PS2_MOUSE_VENDOR_def
  PS2_MOUSE_GENERIC_PRODUCT_def snprintf_def Let_def

lemma fmt_x_samples:
  "fmt_x 0 = ''0''" "fmt_x (Suc 0) = ''1''" "fmt_x 2 = ''2''" "fmt_x 3 = ''3''" "fmt_x 6 = ''6''"
  "fmt_x 17 = ''11''" "fmt_x 1133 = ''46d''" "fmt_x 49948 = ''c31c''"
  by (simp_all add: fmt_x.simps hex_digit_def)

lemma sample_ids_psm:
  "legacy_ids (sample_env b) ''psm'' ''_HID=none _UID=0'' ''atkbdc0'' = (''11/2/1/0'', None)"
  by (simp add: sample_env_def ids_eval fmt_x_samples)

lemma sample_ids_atkbd:
  "legacy_ids (sample_env b) ''atkbd'' ''_HID=PNP0303 _UID=0'' ''atkbdc0''
     = (''11/1/1/0'', Some ''PNP0303'')"
  by (simp add: sample_env_def ids_eval fmt_x_samples)

lemma sample_ids_ums:
  "legacy_ids (sample_env b) ''ums'' ''vendor=0x046d product=0xc31c devclass=0x00'' ''uhub0''
     = (''3/46d/c31c/0'', None)"
  by (simp add: sample_env_def ids_eval fmt_x_samples)

lemma fmt_x_length: "0 < k \<Longrightarrow> n < 16 ^ k \<Longrightarrow> length (fmt_x n) \<le> k"
proof (induction n arbitrary: k rule: fmt_x.induct)
  case (1 n)
  show ?case
  proof (cases "n < 16")
    case True
    with "1.prems" show ?thesis by (simp add: fmt_x.simps [of n])
  next
    case False
    with "1.prems" obtain j where k: "k = Suc j" and j: "0 < j"
      by (cases k; cases "k - 1") auto
    from "1.prems" k have "n div 16 < 16 ^ j"
      by (simp add: less_mult_imp_div_less mult.commute)
    with "1.IH" [of j] False j have "length (fmt_x (n div 16)) \<le> j" by simp
    with False k show ?thesis by (simp add: fmt_x.simps [of n])
  qed
qed

lemma fmt_x_u32_length: "length (fmt_x (unat (w :: u32))) \<le> 8"
proof -
  have "unat w < 2 ^ 32" using unsigned_less [of w] by simp
  then have "unat w < 16 ^ 8" by simp
  then show ?thesis by (intro fmt_x_length) simp_all
qed

lemma digit_val_hex_digit: "d < 16 \<Longrightarrow> digit_val (hex_digit d) = Some d"
proof -
  assume "d < 16"
  then have "d = 0 \<or> d = 1 \<or> d = 2 \<or> d = 3 \<or> d = 4 \<or> d = 5 \<or> d = 6 \<or> d = 7 \<or> d = 8
      \<or> d = 9 \<or> d = 10 \<or> d = 11 \<or> d = 12 \<or> d = 13 \<or> d = 14 \<or> d = 15"
    by arith
  then show ?thesis
    by (elim disjE) (simp_all add: hex_digit_def digit_val_def)
qed

lemma hex_digit_mem: "d < 16 \<Longrightarrow> hex_digit d \<in> set ''0123456789abcdef''"
  unfolding hex_digit_def by (rule nth_mem) simp

lemma hex_value_snoc: "hex_value (s @ [c]) = 16 * hex_value s + the (digit_val c)"
  by (simp add: hex_value_def)

lemma hex_value_fmt_x: "hex_value (fmt_x n) = n"
proof (induction n rule: fmt_x.induct)
  case (1 n)
  show ?case
  proof (cases "n < 16")
    case True
    then show ?thesis
      by (simp add: fmt_x.simps [of n] hex_value_def digit_val_hex_digit)
  next
    case False
    with "1.IH" have "hex_value (fmt_x (n div 16)) = n div 16" by simp
    with False show ?thesis
      by (simp add: fmt_x.simps [of n] hex_value_snoc digit_val_hex_digit)
  qed
qed

lemma fmt_x_digits: "set (fmt_x n) \<subseteq> set ''0123456789abcdef''"
proof (induction n rule: fmt_x.induct)
  case (1 n)
  show ?case
  proof (cases "n < 16")
    case True
    then show ?thesis
      using hex_digit_mem [of n] by (simp add: fmt_x.simps [of n])
  next
    case False
    with "1.IH" have "set (fmt_x (n div 16)) \<subseteq> set ''0123456789abcdef''" by simp
    with False show ?thesis
      using hex_digit_mem [of "n mod 16"] by (simp add: fmt_x.simps [of n])
  qed
qed

lemma legacy_ids_snprintf: "fst (legacy_ids e devname pnpinfo parentname) =
     (case bus_vendor_product (value_at e pnpinfo ''vendor'') (value_at e pnpinfo ''product'')
             (value_at e pnpinfo ''device'') parentname devname of
        (bus, vendor, prd) \<Rightarrow>
          snprintf 80
            (fmt_x (unat bus) @ ''/'' @ fmt_x (unat vendor) @ ''/'' @ fmt_x (unat prd) @ ''/0''))"
  unfolding legacy_ids_def Let_def value_at_def terminated_pnpinfo_def
  by (simp split: prod.splits)


lemma legacy_ids_product:
  "fst (legacy_ids e devname pnpinfo parentname) =
     (case bus_vendor_product (value_at e pnpinfo ''vendor'') (value_at e pnpinfo ''product'')
             (value_at e pnpinfo ''device'') parentname devname of
        (bus, vendor, prd) \<Rightarrow>
          fmt_x (unat bus) @ ''/'' @ fmt_x (unat vendor) @ ''/'' @ fmt_x (unat prd) @ ''/0'')"
proof -
  obtain bus vendor prd where b:
    "bus_vendor_product (value_at e pnpinfo ''vendor'') (value_at e pnpinfo ''product'')
       (value_at e pnpinfo ''device'') parentname devname = (bus, vendor, prd)"
    by (metis prod_cases3)
  have "length (fmt_x (unat bus) @ ''/'' @ fmt_x (unat vendor) @ ''/'' @ fmt_x (unat prd) @ ''/0'')
          \<le> 79"
    using fmt_x_u32_length [of bus] fmt_x_u32_length [of vendor] fmt_x_u32_length [of prd]
    by simp
  then have "snprintf 80
       (fmt_x (unat bus) @ ''/'' @ fmt_x (unat vendor) @ ''/'' @ fmt_x (unat prd) @ ''/0'')
     = fmt_x (unat bus) @ ''/'' @ fmt_x (unat vendor) @ ''/'' @ fmt_x (unat prd) @ ''/0''"
    unfolding snprintf_def by (simp del: append.simps)
  then show ?thesis
    by (simp only: legacy_ids_snprintf b prod.case)
qed

lemma legacy_parent_product:
  assumes "unit_of (udev_device_get_sysname ud) \<noteq> []"
    and "sysctlbyname e (mib_name (driver_of (udev_device_get_sysname ud))
            (unit_of (udev_device_get_sysname ud)) ''%desc'') 80 = Some desc"
    and "sysctlbyname e (mib_name (driver_of (udev_device_get_sysname ud))
            (unit_of (udev_device_get_sysname ud)) ''%pnpinfo'') 1024 = Some pnpinfo"
    and "sysctlbyname e (mib_name (driver_of (udev_device_get_sysname ud))
            (unit_of (udev_device_get_sysname ud)) ''%parent'') 80 = Some parentname"
    and "udev_device_new_common e (udev_device_get_sysname ud) = Some p0"
  shows "\<exists>p. ud_parent (snd (set_parent e ud)) = Some p
    \<and> map_of (ud_prop_list p) ''PRODUCT''
        = Some (Some (fst (legacy_ids e (driver_of (udev_device_get_sysname ud))
                             pnpinfo parentname)))"
proof -
  let ?sn = "udev_device_get_sysname ud"
  let ?ids = "legacy_ids e (driver_of ?sn) pnpinfo parentname"
  from create_xorg_parent_some [where new = "udev_device_new_common e" and sysname = ?sn
      and ud = ud and name = "strip_name desc" and prd = "Some (fst ?ids)"
      and pnp_id = "snd ?ids", OF assms(5)]
  obtain p where p: "create_xorg_parent (udev_device_new_common e) ud ?sn
                       (strip_name desc) (Some (fst ?ids)) (snd ?ids) = Some p"
    and n: "map_of (ud_prop_list p) ''PRODUCT'' = Some (Some (fst ?ids))"
    by auto
  have "snd (set_parent e ud) = udev_device_set_parent ud p"
    using assms(1-4) p by (simp add: set_parent_def set_parent_args_unfold Let_def)
  then have "ud_parent (snd (set_parent e ud)) = Some p"
    by (simp add: udev_device_set_parent_def)
  with n show ?thesis by blast
qed

section \<open>Verified properties\<close>

text \<open>
  C1. For every triple of key, relative-axis and absolute-axis bitmaps the classifier
  returns exactly the classification of the decision tree of the specification
  (\<open>spec_classify\<close>): Joystick for multitouch without ordinary buttons and with the
  joystick-button bit; with absolute X and Y, Tablet for a pen or stylus bit, else for a
  pressure axis or touch button Touchpad when a left, middle or right button or the
  tool-finger bit is present and Touchscreen otherwise, else Touchscreen when relative X
  and Y are not both present and a left, middle or right button is; otherwise Keyboard for
  an ordinary key, else Mouse for any relative, absolute or extra-button bit, else None.
  With None the handler leaves the device as it is: no marker, no parent.
\<close>

theorem evdev_classifier_decision_tree:
  "evdev_probe key_bits rel_bits abs_bits =
     (let t = spec_classify (bit_is_set key_bits) (bit_is_set rel_bits) (bit_is_set abs_bits)
      in if t = IT_NONE then None else Some t)
   \<and> (open_node e (udev_device_get_devnode ud) = Some fd
        \<and> query_evdev fd = Some (name, phys, iid, rel_bits, abs_bits, key_bits)
        \<and> spec_classify (bit_is_set key_bits) (bit_is_set rel_bits) (bit_is_set abs_bits)
            = IT_NONE
      \<longrightarrow> create_evdev_handler e ud = ud)"
proof (intro conjI impI)
  show "evdev_probe key_bits rel_bits abs_bits =
     (let t = spec_classify (bit_is_set key_bits) (bit_is_set rel_bits) (bit_is_set abs_bits)
      in if t = IT_NONE then None else Some t)"
    by (rule evdev_probe_spec)
next
  assume a: "open_node e (udev_device_get_devnode ud) = Some fd
        \<and> query_evdev fd = Some (name, phys, iid, rel_bits, abs_bits, key_bits)
        \<and> spec_classify (bit_is_set key_bits) (bit_is_set rel_bits) (bit_is_set abs_bits)
            = IT_NONE"
  then have "evdev_probe key_bits rel_bits abs_bits = None"
    by (simp add: evdev_probe_spec)
  with a show "create_evdev_handler e ud = ud"
    by (intro create_evdev_handler_none [of e ud fd name phys iid rel_bits abs_bits key_bits]) simp_all
qed

theorem evdev_classifier_decision_tree_witness:
  "spec_classify (bit_is_set touchpad_keys) (bit_is_set [0]) (bit_is_set [16777219]) = IT_TOUCHPAD
   \<and> spec_classify (bit_is_set no_keys) (bit_is_set [0]) (bit_is_set [0]) = IT_NONE
   \<and> create_evdev_handler silent_env (Udev_device ''/dev/input/event7'' [] [] None)
       = Udev_device ''/dev/input/event7'' [] [] None"
proof -
  have t: "spec_classify (bit_is_set touchpad_keys) (bit_is_set [0]) (bit_is_set [16777219])
             = IT_TOUCHPAD"
    using evdev_classifier_decision_tree [where key_bits = touchpad_keys and rel_bits = "[0]"
        and abs_bits = "[16777219]", THEN conjunct1] probe_touchpad
    by (simp add: Let_def split: if_splits)
  have n: "spec_classify (bit_is_set no_keys) (bit_is_set [0]) (bit_is_set [0]) = IT_NONE"
    using evdev_classifier_decision_tree [where key_bits = no_keys and rel_bits = "[0]"
        and abs_bits = "[0]", THEN conjunct1] probe_nothing
    by (simp add: Let_def split: if_splits)
  have "create_evdev_handler silent_env (Udev_device ''/dev/input/event7'' [] [] None)
       = Udev_device ''/dev/input/event7'' [] [] None"
    using evdev_classifier_decision_tree [of no_keys "[0]" "[0]" silent_env
        "Udev_device ''/dev/input/event7'' [] [] None" silent_node
        "''Generic, Inc Mouse''" "[]"
        "\<lparr>id_bustype = 3, id_vendor = 0x46d, id_product = 0xc31c, id_version = 0x110\<rparr>"] n
    by (simp add: silent_env_def silent_node_def query_evdev_def)
  with t n show ?thesis by simp
qed

text \<open>
  C10. For every path string, \<open>get_devpath_by_syspath\<close> and \<open>get_syspath_by_devpath\<close> are
  both the identity, so converting in either direction and back returns the original string.
\<close>

theorem path_conversions_identity:
  "get_devpath_by_syspath p = p \<and> get_syspath_by_devpath p = p
   \<and> get_syspath_by_devpath (get_devpath_by_syspath p) = p
   \<and> get_devpath_by_syspath (get_syspath_by_devpath p) = p"
  by (simp add: get_devpath_by_syspath_def get_syspath_by_devpath_def)

text \<open>
  C9. For every device given a classification other than None, the property list gains the
  marker \<open>ID_INPUT\<close> and exactly the type-specific markers of the specification for that
  classification (\<open>spec_markers\<close>), each with the value 1; every other property and the
  rest of the device stay as they were.
\<close>

theorem type_markers_by_classification:
  assumes "t \<noteq> IT_NONE"
  shows "fst (set_input_device_type ud t) = 0
    \<and> (\<forall>k. map_of (ud_prop_list (snd (set_input_device_type ud t))) k =
          (if k = ''ID_INPUT'' \<or> k \<in> spec_markers t then Some (Some ''1'')
           else map_of (ud_prop_list ud) k))
    \<and> ud_syspath (snd (set_input_device_type ud t)) = ud_syspath ud
    \<and> ud_sysattr_list (snd (set_input_device_type ud t)) = ud_sysattr_list ud
    \<and> ud_parent (snd (set_input_device_type ud t)) = ud_parent ud"
  by (simp add: set_input_device_type_props set_input_device_type_fields)

theorem type_markers_by_classification_witness:
  "IT_TOUCHPAD \<noteq> IT_NONE
   \<and> set_input_device_type (Udev_device ''/dev/atp0'' [(''DEVNAME'', Some ''atp0'')] [] None) IT_TOUCHPAD
       = (0, Udev_device ''/dev/atp0''
               [(''DEVNAME'', Some ''atp0''), (''ID_INPUT'', Some ''1''),
                (''ID_INPUT_MOUSE'', Some ''1''), (''ID_INPUT_TOUCHPAD'', Some ''1'')] [] None)
   \<and> map_of (ud_prop_list (snd (set_input_device_type
         (Udev_device ''/dev/atp0'' [(''DEVNAME'', Some ''atp0'')] [] None) IT_TOUCHPAD)))
         ''ID_INPUT_TOUCHPAD'' = Some (Some ''1'')
   \<and> map_of (ud_prop_list (snd (set_input_device_type
         (Udev_device ''/dev/atp0'' [(''DEVNAME'', Some ''atp0'')] [] None) IT_TOUCHPAD)))
         ''ID_INPUT_KEYBOARD'' = None"
  using type_markers_by_classification [of IT_TOUCHPAD
      "Udev_device ''/dev/atp0'' [(''DEVNAME'', Some ''atp0'')] [] None"]
  by (simp add: set_input_device_type_def device_defs spec_markers_def)

text \<open>
  C4. The synthesizer called with a retained plug-and-play id: the attribute \<open>id\<close> of the
  produced parent holds the product string, not the plug-and-play id (line 273 inserts
  \<open>product\<close>). The \<open>NAME\<close> and \<open>PRODUCT\<close> properties and the \<open>name\<close> attribute are as
  given.
\<close>

theorem create_xorg_parent_id_attribute:
  "create_xorg_parent (\<lambda>s. Some (Udev_device s [] [] None))
     (Udev_device ''/dev/atkbd0'' [] [] None) ''atkbd0'' ''AT keyboard''
     (Some ''11/1/1/0'') (Some ''PNP0303'')
   = Some (Udev_device ''atkbd0''
       [(''NAME'', Some ''AT keyboard''), (''PRODUCT'', Some ''11/1/1/0'')]
       [(''name'', Some ''AT keyboard''), (''id'', Some ''11/1/1/0'')] None)"
  by (simp add: create_xorg_parent_def device_defs)

text \<open>
  C5. For every sequence of calls of the capability gate that starts with the cache unset:
  as long as the query of the kernel flag fails, each call returns false, leaves the cache
  unset and makes one more query; once a query succeeds with the value \<open>b\<close>, that call and
  every later call return \<open>b\<close>, the value stays cached and no further query is made.
\<close>

theorem gate_caches_only_success:
  assumes "enabled g = -1"
    and "\<forall>i<k. evdev_support e (queries g + i) = None"
  shows "gate_calls e k g = (replicate k False, g\<lparr>queries := queries g + k\<rparr>)
    \<and> (evdev_support e (queries g + k) = Some b \<longrightarrow>
         gate_calls e (k + Suc n) g =
           (replicate k False @ replicate (Suc n) b,
            g\<lparr>enabled := (if b then 1 else 0), queries := queries g + k + 1\<rparr>))"
proof (intro conjI impI)
  show fail: "gate_calls e k g = (replicate k False, g\<lparr>queries := queries g + k\<rparr>)"
    using assms by (rule gate_calls_failing)
  assume ok: "evdev_support e (queries g + k) = Some b"
  let ?gk = "g\<lparr>queries := queries g + k\<rparr>"
  have "gate_calls e (Suc n) ?gk =
          (replicate (Suc n) b, ?gk\<lparr>enabled := (if b then 1 else 0), queries := queries ?gk + 1\<rparr>)"
    using assms(1) ok by (intro gate_calls_success) simp_all
  then show "gate_calls e (k + Suc n) g =
           (replicate k False @ replicate (Suc n) b,
            g\<lparr>enabled := (if b then 1 else 0), queries := queries g + k + 1\<rparr>)"
    by (simp only: gate_calls_append [of e k "Suc n" g] fail fst_conv snd_conv) simp
qed

theorem gate_caches_only_success_witness:
  "enabled gate_init = -1
   \<and> gate_calls flaky_kernel 2 gate_init = ([False, False], \<lparr>enabled = -1, queries = 2\<rparr>)
   \<and> gate_calls flaky_kernel 5 gate_init
       = ([False, False, True, True, True], \<lparr>enabled = 1, queries = 3\<rparr>)"
proof -
  have h1: "enabled gate_init = -1" by (simp add: gate_init_def)
  have h2: "\<forall>i<2. evdev_support flaky_kernel (queries gate_init + i) = None"
    by (simp add: flaky_kernel_def gate_init_def)
  have h3: "evdev_support flaky_kernel (queries gate_init + 2) = Some True"
    by (simp add: flaky_kernel_def gate_init_def)
  from gate_caches_only_success [OF h1 h2, of True 2] h3
  show ?thesis
    by (simp add: gate_init_def numeral_2_eq_2 numeral_3_eq_3 eval_nat_numeral)
qed

text \<open>
  C2. For every device path, rule resolution returns the first rule of the table, in
  declaration order, whose pattern matches the path, and nothing when no pattern matches.
  Dispatch leaves the device alone when no rule is found or the rule has no handler, and
  when the rule carries the skip flag and the capability gate reports the uniform interface
  enabled; otherwise it runs the handler of the rule. So a path that matches the legacy
  keyboard pattern \<open>ukbd[0-9]*\<close> is skipped when the gate reports enabled and goes to the
  keyboard handler when it does not, and a path that matches the event-node pattern always
  goes to the uniform-interface handler.
\<close>

theorem dispatch_by_first_matching_rule:
  "(get_subsystem_config_by_syspath path = None
      \<longleftrightarrow> (\<forall>sc \<in> set subsystems. \<not> fnmatch (sc_syspath sc) path))
   \<and> (get_subsystem_config_by_syspath path = Some sc
      \<longleftrightarrow> (\<exists>i < length subsystems. sc = subsystems ! i \<and> fnmatch (sc_syspath sc) path
            \<and> (\<forall>j < i. \<not> fnmatch (sc_syspath (subsystems ! j)) path)))
   \<and> snd (invoke_create_handler e g ud) =
       (case get_subsystem_config_by_syspath (ud_syspath ud) of
          None \<Rightarrow> ud
        | Some sc \<Rightarrow>
            (case sc_create_handler sc of
               None \<Rightarrow> ud
             | Some h \<Rightarrow>
                 if sc_flags sc AND SCFLAG_SKIP_IF_EVDEV \<noteq> 0
                    \<and> fst (kernel_has_evdev_enabled e g)
                 then ud else call_handler h e ud))
   \<and> (fnmatch (DEV_PATH_ROOT @ ''/ukbd[0-9]*'') (ud_syspath ud) \<longrightarrow>
        snd (invoke_create_handler e g ud) =
          (if fst (kernel_has_evdev_enabled e g) then ud else create_keyboard_handler e ud))
   \<and> (fnmatch (DEV_PATH_ROOT @ ''/input/event[0-9]*'') (ud_syspath ud) \<longrightarrow>
        snd (invoke_create_handler e g ud) = create_evdev_handler e ud)"
proof (intro conjI impI)
  show "get_subsystem_config_by_syspath path = None
      \<longleftrightarrow> (\<forall>sc \<in> set subsystems. \<not> fnmatch (sc_syspath sc) path)"
    by (auto simp: resolve_find find_None_iff)
  show "get_subsystem_config_by_syspath path = Some sc
      \<longleftrightarrow> (\<exists>i < length subsystems. sc = subsystems ! i \<and> fnmatch (sc_syspath sc) path
            \<and> (\<forall>j < i. \<not> fnmatch (sc_syspath (subsystems ! j)) path))"
    unfolding resolve_find find_Some_iff by auto
  show "snd (invoke_create_handler e g ud) =
       (case get_subsystem_config_by_syspath (ud_syspath ud) of
          None \<Rightarrow> ud
        | Some sc \<Rightarrow>
            (case sc_create_handler sc of
               None \<Rightarrow> ud
             | Some h \<Rightarrow>
                 if sc_flags sc AND SCFLAG_SKIP_IF_EVDEV \<noteq> 0
                    \<and> fst (kernel_has_evdev_enabled e g)
                 then ud else call_handler h e ud))"
    by (rule invoke_create_handler_device)
next
  assume "fnmatch (DEV_PATH_ROOT @ ''/ukbd[0-9]*'') (ud_syspath ud)"
  then have "get_subsystem_config_by_syspath (ud_syspath ud) = Some (subsystems ! 1)"
    by (rule resolve_ukbd)
  then show "snd (invoke_create_handler e g ud) =
          (if fst (kernel_has_evdev_enabled e g) then ud else create_keyboard_handler e ud)"
    by (simp add: invoke_create_handler_device subsystems_def SCFLAG_SKIP_IF_EVDEV_def
        call_handler_def)
next
  assume "fnmatch (DEV_PATH_ROOT @ ''/input/event[0-9]*'') (ud_syspath ud)"
  then have "get_subsystem_config_by_syspath (ud_syspath ud) = Some (subsystems ! 0)"
    by (rule resolve_event)
  then show "snd (invoke_create_handler e g ud) = create_evdev_handler e ud"
    by (simp add: invoke_create_handler_device subsystems_def call_handler_def)
qed

theorem dispatch_by_first_matching_rule_witness:
  "fnmatch (DEV_PATH_ROOT @ ''/ukbd[0-9]*'') ''/dev/ukbd0''
   \<and> snd (invoke_create_handler (sample_env True) gate_init
            (Udev_device ''/dev/ukbd0'' [] [] None))
       = Udev_device ''/dev/ukbd0'' [] [] None
   \<and> snd (invoke_create_handler (sample_env False) gate_init
            (Udev_device ''/dev/ukbd0'' [] [] None))
       = Udev_device ''/dev/ukbd0''
           [(''ID_INPUT'', Some ''1''), (''ID_INPUT_KEY'', Some ''1''),
            (''ID_INPUT_KEYBOARD'', Some ''1'')] [] None
   \<and> fnmatch (DEV_PATH_ROOT @ ''/input/event[0-9]*'') ''/dev/input/event7''
   \<and> snd (invoke_create_handler (sample_env True) gate_init
            (Udev_device ''/dev/input/event7'' [] [] None))
       = Udev_device ''/dev/input/event7''
           [(''ID_INPUT'', Some ''1''), (''ID_INPUT_MOUSE'', Some ''1''),
            (''ID_INPUT_TOUCHPAD'', Some ''1'')] []
           (Some (Udev_device ''usb-0:1/input0''
              [(''NAME'', Some ''Generic''), (''PRODUCT'', Some ''3/46d/c31c/110'')]
              [(''name'', Some ''Generic'')] None))
   \<and> get_subsystem_config_by_syspath ''/dev/null'' = None"
proof -
  have m1: "fnmatch (DEV_PATH_ROOT @ ''/ukbd[0-9]*'') ''/dev/ukbd0''"
    by (simp add: DEV_PATH_ROOT_def fnmatch_eval)
  have m2: "fnmatch (DEV_PATH_ROOT @ ''/input/event[0-9]*'') ''/dev/input/event7''"
    by (simp add: DEV_PATH_ROOT_def fnmatch_eval)
  have m3: "\<forall>sc \<in> set subsystems. \<not> fnmatch (sc_syspath sc) ''/dev/null''"
    by (simp add: subsystems_def DEV_PATH_ROOT_def fnmatch_eval)
  have on: "fst (kernel_has_evdev_enabled (sample_env True) gate_init)"
    and off: "\<not> fst (kernel_has_evdev_enabled (sample_env False) gate_init)"
    by (simp_all add: kernel_has_evdev_enabled_def sample_env_def gate_init_def)
  note th = dispatch_by_first_matching_rule
  have n: "get_subsystem_config_by_syspath ''/dev/null'' = None"
    using th [where path = "''/dev/null''", THEN conjunct1] m3 by simp
  have a: "snd (invoke_create_handler (sample_env True) gate_init
            (Udev_device ''/dev/ukbd0'' [] [] None)) = Udev_device ''/dev/ukbd0'' [] [] None"
    using th [where ud = "Udev_device ''/dev/ukbd0'' [] [] None" and e = "sample_env True"
        and g = gate_init, THEN conjunct2, THEN conjunct2, THEN conjunct2, THEN conjunct1]
      m1 on by simp
  have b: "snd (invoke_create_handler (sample_env False) gate_init
            (Udev_device ''/dev/ukbd0'' [] [] None))
       = create_keyboard_handler (sample_env False) (Udev_device ''/dev/ukbd0'' [] [] None)"
    using th [where ud = "Udev_device ''/dev/ukbd0'' [] [] None" and e = "sample_env False"
        and g = gate_init, THEN conjunct2, THEN conjunct2, THEN conjunct2, THEN conjunct1]
      m1 off by simp
  have c: "snd (invoke_create_handler (sample_env True) gate_init
            (Udev_device ''/dev/input/event7'' [] [] None))
       = create_evdev_handler (sample_env True) (Udev_device ''/dev/input/event7'' [] [] None)"
    using th [where ud = "Udev_device ''/dev/input/event7'' [] [] None"
        and e = "sample_env True" and g = gate_init,
        THEN conjunct2, THEN conjunct2, THEN conjunct2, THEN conjunct2] m2 by simp
  from m1 m2 a n b c show ?thesis
    by (simp only: probe_touchpad_node keyboard_without_metadata simp_thms)
qed

text \<open>
  C6. For every device whose short name has no trailing decimal digits, \<open>set_parent\<close>
  returns before any per-unit property is queried and the device is as it was; and for
  every device for which one of the three per-unit queries (description, plug-and-play
  blob, name of the parent driver) fails, \<open>set_parent\<close> returns the device unchanged, so
  without a parent descriptor.
\<close>

theorem set_parent_aborts:
  "(unit_of (udev_device_get_sysname ud) = [] \<longrightarrow> set_parent e ud = ([], ud))
   \<and> (sysctlbyname e (mib_name (driver_of (udev_device_get_sysname ud))
                         (unit_of (udev_device_get_sysname ud)) ''%desc'') 80 = None
      \<or> sysctlbyname e (mib_name (driver_of (udev_device_get_sysname ud))
                         (unit_of (udev_device_get_sysname ud)) ''%pnpinfo'') 1024 = None
      \<or> sysctlbyname e (mib_name (driver_of (udev_device_get_sysname ud))
                         (unit_of (udev_device_get_sysname ud)) ''%parent'') 80 = None
      \<longrightarrow> snd (set_parent e ud) = ud)"
proof (intro conjI impI)
  assume "unit_of (udev_device_get_sysname ud) = []"
  then show "set_parent e ud = ([], ud)"
    by (simp add: set_parent_def set_parent_args_unfold)
next
  assume fail: "sysctlbyname e (mib_name (driver_of (udev_device_get_sysname ud))
                         (unit_of (udev_device_get_sysname ud)) ''%desc'') 80 = None
      \<or> sysctlbyname e (mib_name (driver_of (udev_device_get_sysname ud))
                         (unit_of (udev_device_get_sysname ud)) ''%pnpinfo'') 1024 = None
      \<or> sysctlbyname e (mib_name (driver_of (udev_device_get_sysname ud))
                         (unit_of (udev_device_get_sysname ud)) ''%parent'') 80 = None"
  then have "snd (set_parent_args e ud) = None"
    by (auto simp: set_parent_args_unfold Let_def split: option.splits)
  then show "snd (set_parent e ud) = ud"
    by (cases "set_parent_args e ud") (simp add: set_parent_def)
qed

theorem set_parent_aborts_witness:
  "unit_of (udev_device_get_sysname (Udev_device ''/dev/sysmouse'' [] [] None)) = []
   \<and> set_parent (sample_env False) (Udev_device ''/dev/sysmouse'' [] [] None)
       = ([], Udev_device ''/dev/sysmouse'' [] [] None)
   \<and> sysctlbyname (sample_env False)
        (mib_name (driver_of (udev_device_get_sysname (Udev_device ''/dev/joy0'' [] [] None)))
           (unit_of (udev_device_get_sysname (Udev_device ''/dev/joy0'' [] [] None)))
           ''%parent'') 80 = None
   \<and> snd (set_parent (sample_env False) (Udev_device ''/dev/joy0'' [] [] None))
       = Udev_device ''/dev/joy0'' [] [] None"
proof -
  have u: "unit_of (udev_device_get_sysname (Udev_device ''/dev/sysmouse'' [] [] None)) = []"
    by (simp add: sample_names)
  have q: "sysctlbyname (sample_env False)
        (mib_name (driver_of (udev_device_get_sysname (Udev_device ''/dev/joy0'' [] [] None)))
           (unit_of (udev_device_get_sysname (Udev_device ''/dev/joy0'' [] [] None)))
           ''%parent'') 80 = None"
    by (simp add: sample_names)
  from u q
    set_parent_aborts [of "Udev_device ''/dev/sysmouse'' [] [] None" "sample_env False",
      THEN conjunct1]
    set_parent_aborts [of "Udev_device ''/dev/joy0'' [] [] None" "sample_env False",
      THEN conjunct2]
  show ?thesis by simp
qed

text \<open>
  C8. For every name reported by the kernel and every legacy description string, the display
  name of the synthesized parent is the input cut at its first comma, and the whole input
  when it holds no comma; \<open>Generic, Inc Mouse\<close> gives \<open>Generic\<close>. The same rule applies
  on the capability-interface path and on the legacy path: in both, the \<open>NAME\<close> property
  and the \<open>name\<close> attribute of the parent hold the cut string.
\<close>

theorem display_name_cut_at_first_comma:
  "strip_name s = takeWhile (\<lambda>c. c \<noteq> CHR '','') s
   \<and> (CHR '','' \<notin> set s \<longrightarrow> strip_name s = s)
   \<and> strip_name ''Generic, Inc Mouse'' = ''Generic''
   \<and> (open_node e (udev_device_get_devnode ud) = Some fd
       \<and> query_evdev fd = Some (name, phys, iid, rel_bits, abs_bits, key_bits)
       \<and> evdev_probe key_bits rel_bits abs_bits = Some t
       \<and> udev_device_new_common e (if phys = [] then virtual_sysname else phys) = Some p0
      \<longrightarrow> (\<exists>p. ud_parent (create_evdev_handler e ud) = Some p
            \<and> map_of (ud_prop_list p) ''NAME'' = Some (Some (takeWhile (\<lambda>c. c \<noteq> CHR '','') name))
            \<and> map_of (ud_sysattr_list p) ''name''
                = Some (Some (takeWhile (\<lambda>c. c \<noteq> CHR '','') name))))
   \<and> (unit_of (udev_device_get_sysname ud) \<noteq> []
       \<and> sysctlbyname e (mib_name (driver_of (udev_device_get_sysname ud))
            (unit_of (udev_device_get_sysname ud)) ''%desc'') 80 = Some desc
       \<and> sysctlbyname e (mib_name (driver_of (udev_device_get_sysname ud))
            (unit_of (udev_device_get_sysname ud)) ''%pnpinfo'') 1024 = Some pnpinfo
       \<and> sysctlbyname e (mib_name (driver_of (udev_device_get_sysname ud))
            (unit_of (udev_device_get_sysname ud)) ''%parent'') 80 = Some parentname
       \<and> udev_device_new_common e (udev_device_get_sysname ud) = Some p1
      \<longrightarrow> (\<exists>p. ud_parent (snd (set_parent e ud)) = Some p
            \<and> map_of (ud_prop_list p) ''NAME'' = Some (Some (takeWhile (\<lambda>c. c \<noteq> CHR '','') desc))
            \<and> map_of (ud_sysattr_list p) ''name''
                = Some (Some (takeWhile (\<lambda>c. c \<noteq> CHR '','') desc))))"
proof (intro conjI impI)
  show "strip_name s = takeWhile (\<lambda>c. c \<noteq> CHR '','') s"
    by (rule strip_name_takeWhile)
  show "strip_name ''Generic, Inc Mouse'' = ''Generic''"
    by (simp add: strip_name_def)
next
  assume "CHR '','' \<notin> set s"
  then show "strip_name s = s"
    by (auto simp: strip_name_takeWhile takeWhile_eq_all_conv)
next
  assume "open_node e (udev_device_get_devnode ud) = Some fd
       \<and> query_evdev fd = Some (name, phys, iid, rel_bits, abs_bits, key_bits)
       \<and> evdev_probe key_bits rel_bits abs_bits = Some t
       \<and> udev_device_new_common e (if phys = [] then virtual_sysname else phys) = Some p0"
  then show "\<exists>p. ud_parent (create_evdev_handler e ud) = Some p
            \<and> map_of (ud_prop_list p) ''NAME'' = Some (Some (takeWhile (\<lambda>c. c \<noteq> CHR '','') name))
            \<and> map_of (ud_sysattr_list p) ''name''
                = Some (Some (takeWhile (\<lambda>c. c \<noteq> CHR '','') name))"
    using evdev_parent_name [of e ud fd name phys iid rel_bits abs_bits key_bits t p0]
    by (simp add: strip_name_takeWhile)
next
  assume "unit_of (udev_device_get_sysname ud) \<noteq> []
       \<and> sysctlbyname e (mib_name (driver_of (udev_device_get_sysname ud))
            (unit_of (udev_device_get_sysname ud)) ''%desc'') 80 = Some desc
       \<and> sysctlbyname e (mib_name (driver_of (udev_device_get_sysname ud))
            (unit_of (udev_device_get_sysname ud)) ''%pnpinfo'') 1024 = Some pnpinfo
       \<and> sysctlbyname e (mib_name (driver_of (udev_device_get_sysname ud))
            (unit_of (udev_device_get_sysname ud)) ''%parent'') 80 = Some parentname
       \<and> udev_device_new_common e (udev_device_get_sysname ud) = Some p1"
  then show "\<exists>p. ud_parent (snd (set_parent e ud)) = Some p
            \<and> map_of (ud_prop_list p) ''NAME'' = Some (Some (takeWhile (\<lambda>c. c \<noteq> CHR '','') desc))
            \<and> map_of (ud_sysattr_list p) ''name''
                = Some (Some (takeWhile (\<lambda>c. c \<noteq> CHR '','') desc))"
    using legacy_parent_name [of ud e desc pnpinfo parentname p1]
    by (simp add: strip_name_takeWhile)
qed


theorem display_name_cut_at_first_comma_witness:
  "CHR '','' \<notin> set ''AT Keyboard'' \<and> strip_name ''AT Keyboard'' = ''AT Keyboard''
   \<and> map_option (\<lambda>p. map_of (ud_prop_list p) ''NAME'')
        (ud_parent (create_evdev_handler (sample_env True)
                      (Udev_device ''/dev/input/event7'' [] [] None)))
       = Some (Some (Some ''Generic''))
   \<and> map_option (\<lambda>p. map_of (ud_prop_list p) ''NAME'')
        (ud_parent (snd (set_parent (sample_env False) (Udev_device ''/dev/ums0'' [] [] None))))
       = Some (Some (Some ''Generic''))"
proof -
  note th = display_name_cut_at_first_comma
  have c: "CHR '','' \<notin> set ''AT Keyboard''" by simp
  have a: "strip_name ''AT Keyboard'' = ''AT Keyboard''"
    using th [where s = "''AT Keyboard''", THEN conjunct2, THEN conjunct1] c by simp
  let ?iid = "\<lparr>id_bustype = 3, id_vendor = 0x46d, id_product = 0xc31c, id_version = 0x110\<rparr>"
  have "\<exists>p. ud_parent (create_evdev_handler (sample_env True)
                 (Udev_device ''/dev/input/event7'' [] [] None)) = Some p
        \<and> map_of (ud_prop_list p) ''NAME''
            = Some (Some (takeWhile (\<lambda>c. c \<noteq> CHR '','') ''Generic, Inc Touchpad''))
        \<and> map_of (ud_sysattr_list p) ''name''
            = Some (Some (takeWhile (\<lambda>c. c \<noteq> CHR '','') ''Generic, Inc Touchpad''))"
    by (rule th [where e = "sample_env True"
          and ud = "Udev_device ''/dev/input/event7'' [] [] None" and fd = touchpad_node
          and name = "''Generic, Inc Touchpad''" and phys = "''usb-0:1/input0''"
          and iid = ?iid and rel_bits = "[0]" and abs_bits = "[16777219]"
          and key_bits = touchpad_keys and t = IT_TOUCHPAD
          and ?p0.0 = "Udev_device ''usb-0:1/input0'' [] [] None",
          THEN conjunct2, THEN conjunct2, THEN conjunct2, THEN conjunct1, THEN mp])
       (simp add: sample_env_def touchpad_node_def query_evdev_def probe_touchpad
          udev_device_get_devnode_def)
  then have e: "map_option (\<lambda>p. map_of (ud_prop_list p) ''NAME'')
        (ud_parent (create_evdev_handler (sample_env True)
                      (Udev_device ''/dev/input/event7'' [] [] None)))
       = Some (Some (Some ''Generic''))"
    by auto
  have "\<exists>p. ud_parent (snd (set_parent (sample_env False)
                 (Udev_device ''/dev/ums0'' [] [] None))) = Some p
        \<and> map_of (ud_prop_list p) ''NAME''
            = Some (Some (takeWhile (\<lambda>c. c \<noteq> CHR '','') ''Generic, Inc Mouse''))
        \<and> map_of (ud_sysattr_list p) ''name''
            = Some (Some (takeWhile (\<lambda>c. c \<noteq> CHR '','') ''Generic, Inc Mouse''))"
    by (rule th [where e = "sample_env False" and ud = "Udev_device ''/dev/ums0'' [] [] None"
          and desc = "''Generic, Inc Mouse''"
          and pnpinfo = "''vendor=0x046d product=0xc31c devclass=0x00''"
          and parentname = "''uhub0''" and ?p1.0 = "Udev_device ''ums0'' [] [] None",
          THEN conjunct2, THEN conjunct2, THEN conjunct2, THEN conjunct2, THEN mp])
       (simp add: sample_names)
  then have l: "map_option (\<lambda>p. map_of (ud_prop_list p) ''NAME'')
        (ud_parent (snd (set_parent (sample_env False) (Udev_device ''/dev/ums0'' [] [] None))))
       = Some (Some (Some ''Generic''))"
    by auto
  from c a e l show ?thesis by simp
qed

text \<open>
  C7. For every plug-and-play blob, \<open>set_parent\<close> takes from it the values of the keys
  \<open>vendor\<close>, \<open>product\<close>, \<open>device\<close> and \<open>_HID\<close> and nothing else; a \<open>_HID\<close> value that is
  exactly the four characters \<open>none\<close> is treated as if the key were absent, so that no
  plug-and-play id is passed to the synthesizer; an absent key passes none either, and any
  other value is passed as it stands in the blob.
\<close>

theorem hid_none_is_absent:
  "((\<forall>k \<in> {''vendor'', ''product'', ''device'', ''_HID''}.
        get_kern_prop_value e pnpinfo k = get_kern_prop_value e' pnpinfo k)
      \<longrightarrow> legacy_ids e devname pnpinfo parentname = legacy_ids e' devname pnpinfo parentname)
   \<and> (get_kern_prop_value e pnpinfo ''_HID'' = Some (off, 4)
       \<and> take 4 (cstr_at pnpinfo off) = ''none''
      \<longrightarrow> snd (legacy_ids e devname pnpinfo parentname) = None
          \<and> legacy_ids e devname pnpinfo parentname
              = legacy_ids (without_hid e) devname pnpinfo parentname)
   \<and> (get_kern_prop_value e pnpinfo ''_HID'' = None
      \<longrightarrow> snd (legacy_ids e devname pnpinfo parentname) = None)
   \<and> (get_kern_prop_value e pnpinfo ''_HID'' = Some (off, l)
       \<and> \<not> (l = 4 \<and> take 4 (cstr_at pnpinfo off) = ''none'') \<and> NUL \<notin> set pnpinfo
      \<longrightarrow> snd (legacy_ids e devname pnpinfo parentname) = Some (take l (drop off pnpinfo)))
   \<and> (unit_of (udev_device_get_sysname ud) \<noteq> []
       \<and> sysctlbyname e (mib_name (driver_of (udev_device_get_sysname ud))
            (unit_of (udev_device_get_sysname ud)) ''%desc'') 80 = Some desc
       \<and> sysctlbyname e (mib_name (driver_of (udev_device_get_sysname ud))
            (unit_of (udev_device_get_sysname ud)) ''%pnpinfo'') 1024 = Some blob
       \<and> sysctlbyname e (mib_name (driver_of (udev_device_get_sysname ud))
            (unit_of (udev_device_get_sysname ud)) ''%parent'') 80 = Some pname
      \<longrightarrow> snd (set_parent_args e ud) =
            Some (udev_device_get_sysname ud, strip_name desc,
                  Some (fst (legacy_ids e (driver_of (udev_device_get_sysname ud)) blob pname)),
                  snd (legacy_ids e (driver_of (udev_device_get_sysname ud)) blob pname)))"
proof (intro conjI impI)
  assume "\<forall>k \<in> {''vendor'', ''product'', ''device'', ''_HID''}.
        get_kern_prop_value e pnpinfo k = get_kern_prop_value e' pnpinfo k"
  then show "legacy_ids e devname pnpinfo parentname = legacy_ids e' devname pnpinfo parentname"
    by (intro legacy_ids_cong) simp_all
next
  assume h: "get_kern_prop_value e pnpinfo ''_HID'' = Some (off, 4)
       \<and> take 4 (cstr_at pnpinfo off) = ''none''"
  then have r: "retained_pnp_id pnpinfo (get_kern_prop_value e pnpinfo ''_HID'') = None"
    by (simp add: retained_pnp_id_def)
  then show "snd (legacy_ids e devname pnpinfo parentname) = None"
    by (simp add: legacy_ids_pnp)
  show "legacy_ids e devname pnpinfo parentname
              = legacy_ids (without_hid e) devname pnpinfo parentname"
    by (rule legacy_ids_cong) (simp_all add: without_hid_def retained_pnp_id_def h)
next
  assume "get_kern_prop_value e pnpinfo ''_HID'' = None"
  then show "snd (legacy_ids e devname pnpinfo parentname) = None"
    by (simp add: legacy_ids_pnp retained_pnp_id_def)
next
  assume h: "get_kern_prop_value e pnpinfo ''_HID'' = Some (off, l)
       \<and> \<not> (l = 4 \<and> take 4 (cstr_at pnpinfo off) = ''none'') \<and> NUL \<notin> set pnpinfo"
  then have "retained_pnp_id pnpinfo (get_kern_prop_value e pnpinfo ''_HID'') = Some (off, l)"
    by (auto simp: retained_pnp_id_def)
  with h show "snd (legacy_ids e devname pnpinfo parentname) = Some (take l (drop off pnpinfo))"
    by (simp add: legacy_ids_pnp cstr_at_terminated)
next
  assume "unit_of (udev_device_get_sysname ud) \<noteq> []
       \<and> sysctlbyname e (mib_name (driver_of (udev_device_get_sysname ud))
            (unit_of (udev_device_get_sysname ud)) ''%desc'') 80 = Some desc
       \<and> sysctlbyname e (mib_name (driver_of (udev_device_get_sysname ud))
            (unit_of (udev_device_get_sysname ud)) ''%pnpinfo'') 1024 = Some blob
       \<and> sysctlbyname e (mib_name (driver_of (udev_device_get_sysname ud))
            (unit_of (udev_device_get_sysname ud)) ''%parent'') 80 = Some pname"
  then show "snd (set_parent_args e ud) =
            Some (udev_device_get_sysname ud, strip_name desc,
                  Some (fst (legacy_ids e (driver_of (udev_device_get_sysname ud)) blob pname)),
                  snd (legacy_ids e (driver_of (udev_device_get_sysname ud)) blob pname))"
    by (simp add: set_parent_args_unfold Let_def)
qed

theorem hid_none_is_absent_witness:
  "get_kern_prop_value (sample_env False) ''_HID=none _UID=0'' ''_HID'' = Some (5, 4)
   \<and> take 4 (cstr_at ''_HID=none _UID=0'' 5) = ''none''
   \<and> snd (legacy_ids (sample_env False) ''psm'' ''_HID=none _UID=0'' ''atkbdc0'') = None
   \<and> legacy_ids (sample_env False) ''psm'' ''_HID=none _UID=0'' ''atkbdc0''
       = legacy_ids (without_hid (sample_env False)) ''psm'' ''_HID=none _UID=0'' ''atkbdc0''
   \<and> get_kern_prop_value (sample_env False) ''_HID=PNP0303 _UID=0'' ''_HID'' = Some (5, 7)
   \<and> snd (legacy_ids (sample_env False) ''atkbd'' ''_HID=PNP0303 _UID=0'' ''atkbdc0'')
       = Some ''PNP0303''
   \<and> legacy_ids (sample_env False) ''atkbd'' ''_HID=PNP0303 _UID=0'' ''atkbdc0''
       = legacy_ids (sample_env True) ''atkbd'' ''_HID=PNP0303 _UID=0'' ''atkbdc0''
   \<and> snd (set_parent_args (sample_env False) (Udev_device ''/dev/psm0'' [] [] None))
       = Some (''psm0'', ''PS/2 Mouse'', Some ''11/2/1/0'', None)"
proof -
  note th = hid_none_is_absent
  have p1: "get_kern_prop_value (sample_env False) ''_HID=none _UID=0'' ''_HID'' = Some (5, 4)"
    and p2: "take 4 (cstr_at ''_HID=none _UID=0'' 5) = ''none''"
    and p3: "get_kern_prop_value (sample_env False) ''_HID=PNP0303 _UID=0'' ''_HID'' = Some (5, 7)"
    and p4: "NUL \<notin> set ''_HID=PNP0303 _UID=0''"
    by (simp_all add: sample_env_def blob_lookup_def cstr_at_def NUL_def)
  have same: "\<forall>k \<in> {''vendor'', ''product'', ''device'', ''_HID''}.
      get_kern_prop_value (sample_env False) ''_HID=PNP0303 _UID=0'' k
        = get_kern_prop_value (sample_env True) ''_HID=PNP0303 _UID=0'' k"
    by (simp add: sample_env_def)
  have a: "snd (legacy_ids (sample_env False) ''psm'' ''_HID=none _UID=0'' ''atkbdc0'') = None
     \<and> legacy_ids (sample_env False) ''psm'' ''_HID=none _UID=0'' ''atkbdc0''
       = legacy_ids (without_hid (sample_env False)) ''psm'' ''_HID=none _UID=0'' ''atkbdc0''"
    by (rule th [where e = "sample_env False" and pnpinfo = "''_HID=none _UID=0''" and off = 5
        and devname = "''psm''" and parentname = "''atkbdc0''",
        THEN conjunct2, THEN conjunct1, THEN mp]) (simp add: p1 p2)
  have b: "snd (legacy_ids (sample_env False) ''atkbd'' ''_HID=PNP0303 _UID=0'' ''atkbdc0'')
       = Some ''PNP0303''"
    using th [where e = "sample_env False" and pnpinfo = "''_HID=PNP0303 _UID=0''" and off = 5
        and l = 7 and devname = "''atkbd''" and parentname = "''atkbdc0''",
        THEN conjunct2, THEN conjunct2, THEN conjunct2] p3 p4 by simp
  have c: "legacy_ids (sample_env False) ''atkbd'' ''_HID=PNP0303 _UID=0'' ''atkbdc0''
       = legacy_ids (sample_env True) ''atkbd'' ''_HID=PNP0303 _UID=0'' ''atkbdc0''"
    using th [where e = "sample_env False" and e' = "sample_env True"
        and pnpinfo = "''_HID=PNP0303 _UID=0''" and devname = "''atkbd''"
        and parentname = "''atkbdc0''", THEN conjunct1] same by blast
  have "snd (set_parent_args (sample_env False) (Udev_device ''/dev/psm0'' [] [] None)) =
      Some (udev_device_get_sysname (Udev_device ''/dev/psm0'' [] [] None),
            strip_name ''PS/2 Mouse'',
            Some (fst (legacy_ids (sample_env False)
                    (driver_of (udev_device_get_sysname (Udev_device ''/dev/psm0'' [] [] None)))
                    ''_HID=none _UID=0'' ''atkbdc0'')),
            snd (legacy_ids (sample_env False)
                    (driver_of (udev_device_get_sysname (Udev_device ''/dev/psm0'' [] [] None)))
                    ''_HID=none _UID=0'' ''atkbdc0''))"
    by (rule th [where e = "sample_env False" and ud = "Udev_device ''/dev/psm0'' [] [] None"
        and desc = "''PS/2 Mouse''" and blob = "''_HID=none _UID=0''"
        and pname = "''atkbdc0''",
        THEN conjunct2, THEN conjunct2, THEN conjunct2, THEN conjunct2, THEN mp])
       (simp add: sample_names)
  moreover have "driver_of (udev_device_get_sysname (Udev_device ''/dev/psm0'' [] [] None))
                   = ''psm''"
    and "udev_device_get_sysname (Udev_device ''/dev/psm0'' [] [] None) = ''psm0''"
    and "strip_name ''PS/2 Mouse'' = ''PS/2 Mouse''"
    by (simp_all add: sample_names strip_name_def)
  ultimately have d: "snd (set_parent_args (sample_env False)
                            (Udev_device ''/dev/psm0'' [] [] None))
       = Some (''psm0'', ''PS/2 Mouse'', Some ''11/2/1/0'', None)"
    by (simp add: sample_ids_psm)
  from p1 p2 p3 a b c d show ?thesis by blast
qed

text \<open>
  C3 (amended). For every parsed plug-and-play blob and parent driver name, legacy synthesis
  derives bus, vendor and product by the fixed precedence: vendor and product both present
  give the USB bus with the numbers \<open>strtol\<close> reads from them; else vendor and device both
  present give the PCI bus with the vendor and device numbers; else a parent named
  \<open>atkbdc0\<close> gives the bus of the legacy keyboard controller with the PS/2 keyboard pair
  for the driver \<open>atkbd\<close>, the PS/2 mouse pair for the driver \<open>psm\<close> and zero/zero
  otherwise; else the virtual bus with zero/zero. A driver \<open>atkbd\<close> under \<open>atkbdc0\<close> gets
  the PS/2 keyboard pair whenever the blob lacks a vendor together with a product or a
  device. The product string is \<open>bus/vendor/product/0\<close> in lower-case hexadecimal, and it
  is the \<open>PRODUCT\<close> property of the parent.
\<close>

theorem bus_vendor_product_precedence:
  "(vendorstr = Some v \<and> prodstr = Some p \<longrightarrow>
      bus_vendor_product vendorstr prodstr devicestr parentname devname
        = (BUS_USB, word_of_int (strtol0 v), word_of_int (strtol0 p)))
   \<and> (vendorstr = Some v \<and> prodstr = None \<and> devicestr = Some d \<longrightarrow>
      bus_vendor_product vendorstr prodstr devicestr parentname devname
        = (BUS_PCI, word_of_int (strtol0 v), word_of_int (strtol0 d)))
   \<and> ((vendorstr = None \<or> (prodstr = None \<and> devicestr = None)) \<and> parentname = ''atkbdc0'' \<longrightarrow>
      bus_vendor_product vendorstr prodstr devicestr parentname devname
        = (if devname = ''atkbd'' then (BUS_I8042, PS2_KEYBOARD_VENDOR, PS2_KEYBOARD_PRODUCT)
           else if devname = ''psm'' then (BUS_I8042, PS2_MOUSE_VENDOR, PS2_MOUSE_GENERIC_PRODUCT)
           else (BUS_I8042, 0, 0)))
   \<and> ((vendorstr = None \<or> (prodstr = None \<and> devicestr = None)) \<and> parentname \<noteq> ''atkbdc0'' \<longrightarrow>
      bus_vendor_product vendorstr prodstr devicestr parentname devname = (BUS_VIRTUAL, 0, 0))
   \<and> ((vendorstr = None \<or> (prodstr = None \<and> devicestr = None)) \<longrightarrow>
      bus_vendor_product vendorstr prodstr devicestr ''atkbdc0'' ''atkbd''
        = (BUS_I8042, PS2_KEYBOARD_VENDOR, PS2_KEYBOARD_PRODUCT))
   \<and> fst (legacy_ids e devname pnpinfo parentname) =
       (case bus_vendor_product (value_at e pnpinfo ''vendor'') (value_at e pnpinfo ''product'')
               (value_at e pnpinfo ''device'') parentname devname of
          (bus, vendor, prd) \<Rightarrow>
            fmt_x (unat bus) @ ''/'' @ fmt_x (unat vendor) @ ''/'' @ fmt_x (unat prd) @ ''/0'')
   \<and> hex_value (fmt_x n) = n \<and> set (fmt_x n) \<subseteq> set ''0123456789abcdef''
   \<and> (unit_of (udev_device_get_sysname ud) \<noteq> []
       \<and> sysctlbyname e (mib_name (driver_of (udev_device_get_sysname ud))
            (unit_of (udev_device_get_sysname ud)) ''%desc'') 80 = Some desc
       \<and> sysctlbyname e (mib_name (driver_of (udev_device_get_sysname ud))
            (unit_of (udev_device_get_sysname ud)) ''%pnpinfo'') 1024 = Some blob
       \<and> sysctlbyname e (mib_name (driver_of (udev_device_get_sysname ud))
            (unit_of (udev_device_get_sysname ud)) ''%parent'') 80 = Some pname
       \<and> udev_device_new_common e (udev_device_get_sysname ud) = Some p0
      \<longrightarrow> (\<exists>q. ud_parent (snd (set_parent e ud)) = Some q
            \<and> map_of (ud_prop_list q) ''PRODUCT''
                = Some (Some (fst (legacy_ids e (driver_of (udev_device_get_sysname ud))
                                     blob pname)))))"
proof (intro conjI impI)
  show "fst (legacy_ids e devname pnpinfo parentname) =
       (case bus_vendor_product (value_at e pnpinfo ''vendor'') (value_at e pnpinfo ''product'')
               (value_at e pnpinfo ''device'') parentname devname of
          (bus, vendor, prd) \<Rightarrow>
            fmt_x (unat bus) @ ''/'' @ fmt_x (unat vendor) @ ''/'' @ fmt_x (unat prd) @ ''/0'')"
    by (rule legacy_ids_product)
  show "hex_value (fmt_x n) = n" by (rule hex_value_fmt_x)
  show "set (fmt_x n) \<subseteq> set ''0123456789abcdef''" by (rule fmt_x_digits)
next
  assume "vendorstr = Some v \<and> prodstr = Some p"
  then show "bus_vendor_product vendorstr prodstr devicestr parentname devname
        = (BUS_USB, word_of_int (strtol0 v), word_of_int (strtol0 p))"
    by (simp add: bus_vendor_product_def)
next
  assume "vendorstr = Some v \<and> prodstr = None \<and> devicestr = Some d"
  then show "bus_vendor_product vendorstr prodstr devicestr parentname devname
        = (BUS_PCI, word_of_int (strtol0 v), word_of_int (strtol0 d))"
    by (simp add: bus_vendor_product_def)
next
  assume "(vendorstr = None \<or> (prodstr = None \<and> devicestr = None)) \<and> parentname = ''atkbdc0''"
  then show "bus_vendor_product vendorstr prodstr devicestr parentname devname
        = (if devname = ''atkbd'' then (BUS_I8042, PS2_KEYBOARD_VENDOR, PS2_KEYBOARD_PRODUCT)
           else if devname = ''psm'' then (BUS_I8042, PS2_MOUSE_VENDOR, PS2_MOUSE_GENERIC_PRODUCT)
           else (BUS_I8042, 0, 0))"
    by (auto simp: bus_vendor_product_def)
next
  assume "(vendorstr = None \<or> (prodstr = None \<and> devicestr = None)) \<and> parentname \<noteq> ''atkbdc0''"
  then show "bus_vendor_product vendorstr prodstr devicestr parentname devname
        = (BUS_VIRTUAL, 0, 0)"
    by (auto simp: bus_vendor_product_def)
next
  assume "vendorstr = None \<or> (prodstr = None \<and> devicestr = None)"
  then show "bus_vendor_product vendorstr prodstr devicestr ''atkbdc0'' ''atkbd''
        = (BUS_I8042, PS2_KEYBOARD_VENDOR, PS2_KEYBOARD_PRODUCT)"
    by (auto simp: bus_vendor_product_def)
next
  assume "unit_of (udev_device_get_sysname ud) \<noteq> []
       \<and> sysctlbyname e (mib_name (driver_of (udev_device_get_sysname ud))
            (unit_of (udev_device_get_sysname ud)) ''%desc'') 80 = Some desc
       \<and> sysctlbyname e (mib_name (driver_of (udev_device_get_sysname ud))
            (unit_of (udev_device_get_sysname ud)) ''%pnpinfo'') 1024 = Some blob
       \<and> sysctlbyname e (mib_name (driver_of (udev_device_get_sysname ud))
            (unit_of (udev_device_get_sysname ud)) ''%parent'') 80 = Some pname
       \<and> udev_device_new_common e (udev_device_get_sysname ud) = Some p0"
  then show "\<exists>q. ud_parent (snd (set_parent e ud)) = Some q
            \<and> map_of (ud_prop_list q) ''PRODUCT''
                = Some (Some (fst (legacy_ids e (driver_of (udev_device_get_sysname ud))
                                     blob pname)))"
    using legacy_parent_product [of ud e desc blob pname p0] by simp
qed

theorem bus_vendor_product_precedence_witness:
  "bus_vendor_product (Some ''0x1'') (Some ''0x2'') None ''uhub0'' ''ums'' = (BUS_USB, 1, 2)
   \<and> bus_vendor_product (Some ''0x1'') None (Some ''0x2'') ''pci0'' ''vgapci'' = (BUS_PCI, 1, 2)
   \<and> bus_vendor_product None None None ''atkbdc0'' ''atkbd''
       = (BUS_I8042, PS2_KEYBOARD_VENDOR, PS2_KEYBOARD_PRODUCT)
   \<and> bus_vendor_product None None None ''atkbdc0'' ''psm''
       = (BUS_I8042, PS2_MOUSE_VENDOR, PS2_MOUSE_GENERIC_PRODUCT)
   \<and> bus_vendor_product None None None ''nexus0'' ''joy'' = (BUS_VIRTUAL, 0, 0)
   \<and> hex_value (fmt_x 1133) = 1133
   \<and> map_option (\<lambda>q. map_of (ud_prop_list q) ''PRODUCT'')
        (ud_parent (snd (set_parent (sample_env False) (Udev_device ''/dev/ums0'' [] [] None))))
       = Some (Some (Some ''3/46d/c31c/0''))"
proof -
  note th = bus_vendor_product_precedence
  have n: "strtol0 ''0x1'' = 1" "strtol0 ''0x2'' = 2"
    by (simp_all add: strtol0_def strtol_magnitude_def is_hex_prefix_def digit_val_def
        isspace_def LONG_MAX_def LONG_MIN_def)
  have usb: "bus_vendor_product (Some ''0x1'') (Some ''0x2'') None ''uhub0'' ''ums''
               = (BUS_USB, 1, 2)"
    using th [where vendorstr = "Some ''0x1''" and prodstr = "Some ''0x2''" and devicestr = None
        and parentname = "''uhub0''" and devname = "''ums''" and v = "''0x1''" and p = "''0x2''",
        THEN conjunct1] n by simp
  have pci: "bus_vendor_product (Some ''0x1'') None (Some ''0x2'') ''pci0'' ''vgapci''
               = (BUS_PCI, 1, 2)"
    using th [where vendorstr = "Some ''0x1''" and prodstr = None and devicestr = "Some ''0x2''"
        and parentname = "''pci0''" and devname = "''vgapci''" and v = "''0x1''" and d = "''0x2''",
        THEN conjunct2, THEN conjunct1] n by simp
  have kbd: "bus_vendor_product None None None ''atkbdc0'' ''atkbd''
       = (BUS_I8042, PS2_KEYBOARD_VENDOR, PS2_KEYBOARD_PRODUCT)"
    using th [where vendorstr = None and prodstr = None and devicestr = None
        and parentname = "''atkbdc0''" and devname = "''atkbd''",
        THEN conjunct2, THEN conjunct2, THEN conjunct1] by simp
  have psm: "bus_vendor_product None None None ''atkbdc0'' ''psm''
       = (BUS_I8042, PS2_MOUSE_VENDOR, PS2_MOUSE_GENERIC_PRODUCT)"
    using th [where vendorstr = None and prodstr = None and devicestr = None
        and parentname = "''atkbdc0''" and devname = "''psm''",
        THEN conjunct2, THEN conjunct2, THEN conjunct1] by simp
  have virt: "bus_vendor_product None None None ''nexus0'' ''joy'' = (BUS_VIRTUAL, 0, 0)"
    using th [where vendorstr = None and prodstr = None and devicestr = None
        and parentname = "''nexus0''" and devname = "''joy''",
        THEN conjunct2, THEN conjunct2, THEN conjunct2, THEN conjunct1] by simp
  have hex: "hex_value (fmt_x 1133) = 1133"
    by (rule th [THEN conjunct2, THEN conjunct2, THEN conjunct2, THEN conjunct2,
          THEN conjunct2, THEN conjunct2, THEN conjunct1])
  have "\<exists>q. ud_parent (snd (set_parent (sample_env False)
                 (Udev_device ''/dev/ums0'' [] [] None))) = Some q
        \<and> map_of (ud_prop_list q) ''PRODUCT''
            = Some (Some (fst (legacy_ids (sample_env False)
                (driver_of (udev_device_get_sysname (Udev_device ''/dev/ums0'' [] [] None)))
                ''vendor=0x046d product=0xc31c devclass=0x00'' ''uhub0'')))"
    by (rule th [where e = "sample_env False" and ud = "Udev_device ''/dev/ums0'' [] [] None"
          and desc = "''Generic, Inc Mouse''"
          and blob = "''vendor=0x046d product=0xc31c devclass=0x00''"
          and pname = "''uhub0''" and ?p0.0 = "Udev_device ''ums0'' [] [] None",
          THEN conjunct2, THEN conjunct2, THEN conjunct2, THEN conjunct2,
          THEN conjunct2, THEN conjunct2, THEN conjunct2, THEN conjunct2, THEN mp])
       (simp add: sample_names)
  moreover have "driver_of (udev_device_get_sysname (Udev_device ''/dev/ums0'' [] [] None))
                   = ''ums''"
    by (simp add: sample_names)
  ultimately have prd: "map_option (\<lambda>q. map_of (ud_prop_list q) ''PRODUCT'')
        (ud_parent (snd (set_parent (sample_env False) (Udev_device ''/dev/ums0'' [] [] None))))
       = Some (Some (Some ''3/46d/c31c/0''))"
    by (auto simp: sample_ids_ums)
  from usb pci kbd psm virt hex prd show ?thesis by blast
qed

text \<open>
  C3 as first stated says that \<open>atkbd\<close> under \<open>atkbdc0\<close> gets the PS/2 keyboard pair
  regardless of the blob. A blob that carries a vendor and a product comes first in the
  precedence and gives the USB bus with the numbers of the blob.
\<close>

theorem ps2_pair_depends_on_blob:
  "bus_vendor_product (Some ''0x046d product=0xc31c'') (Some ''0xc31c'') None
      ''atkbdc0'' ''atkbd'' = (BUS_USB, 0x46d, 0xc31c)
   \<and> (BUS_USB, 0x46d, 0xc31c) \<noteq> (BUS_I8042, PS2_KEYBOARD_VENDOR, PS2_KEYBOARD_PRODUCT)
   \<and> legacy_ids (sample_env False) ''atkbd'' ''vendor=0x046d product=0xc31c'' ''atkbdc0''
       = (''3/46d/c31c/0'', None)
   \<and> legacy_ids (sample_env False) ''atkbd'' ''_HID=PNP0303 _UID=0'' ''atkbdc0''
       = (''11/1/1/0'', Some ''PNP0303'')"
  by (simp add: sample_env_def ids_eval fmt_x_samples)

end
